theory Spec2Isabelle
  imports Main
begin

section \<open>Chrome controller: values, errors and messages\<close>

text \<open>
  The program is a thin shell around a browser-automation library. The model keeps the
  fields of the \<open>ChromeController\<close> object, the sequence of calls the shell makes on the
  library, and what the shell returns or throws. The library is not part of the program:
  what each of its calls answers is given by an environment.
\<close>

datatype error_code = InvalidRequest | MethodNotFound | InternalError

text \<open>\<open>new McpError(code, message)\<close>: the structured error of the protocol.\<close>

datatype mcp_error = McpError error_code string

text \<open>A thrown value seen by the request handler: an \<open>McpError\<close>, or any other error
  with its \<open>message\<close>.\<close>

datatype js_error = Structured mcp_error | Plain string

text \<open>The values the operations return; \<open>JObj\<close> keeps the keys in source order.\<close>

datatype jvalue =
    JUndefined
  | JBool bool
  | JNum int
  | JStr string
  | JObj "(string \<times> jvalue) list"

text \<open>The texts of the source are Chinese; each is kept as its UTF-8 bytes.\<close>

definition utf8 :: "nat list \<Rightarrow> string" where
  "utf8 bs = map char_of bs"

definition MSG_INIT_OK :: string where
  \<comment> \<open>initialize: browser started\<close>
  "MSG_INIT_OK = utf8 [0x43, 0x68, 0x72, 0x6F, 0x6D, 0x65, 0xE6, 0xB5, 0x8F, 0xE8, 0xA7, 0x88, 0xE5, 0x99, 0xA8, 0xE5, 0x88, 0x9D, 0xE5, 0xA7, 0x8B, 0xE5, 0x8C, 0x96, 0xE6, 0x88, 0x90, 0xE5, 0x8A, 0x9F]"

definition MSG_INIT_FAIL :: string where
  \<comment> \<open>initialize failed\<close>
  "MSG_INIT_FAIL = utf8 [0xE6, 0xB5, 0x8F, 0xE8, 0xA7, 0x88, 0xE5, 0x99, 0xA8, 0xE5, 0x88, 0x9D, 0xE5, 0xA7, 0x8B, 0xE5, 0x8C, 0x96, 0xE5, 0xA4, 0xB1, 0xE8, 0xB4, 0xA5, 0x3A, 0x20]"

definition MSG_NAV_OK :: string where
  \<comment> \<open>navigated to\<close>
  "MSG_NAV_OK = utf8 [0xE6, 0x88, 0x90, 0xE5, 0x8A, 0x9F, 0xE5, 0xAF, 0xBC, 0xE8, 0x88, 0xAA, 0xE5, 0x88, 0xB0, 0x3A, 0x20]"

definition MSG_NAV_FAIL :: string where
  \<comment> \<open>navigation failed\<close>
  "MSG_NAV_FAIL = utf8 [0xE5, 0xAF, 0xBC, 0xE8, 0x88, 0xAA, 0xE5, 0xA4, 0xB1, 0xE8, 0xB4, 0xA5, 0x3A, 0x20]"

definition MSG_SEARCH_OK_HEAD :: string where
  \<comment> \<open>searched in Bing for (opening quote)\<close>
  "MSG_SEARCH_OK_HEAD = utf8 [0xE5, 0xB7, 0xB2, 0xE5, 0x9C, 0xA8, 0x42, 0x69, 0x6E, 0x67, 0xE4, 0xB8, 0xAD, 0xE6, 0x90, 0x9C, 0xE7, 0xB4, 0xA2, 0x22]"

definition MSG_SEARCH_OK_TAIL :: string where
  \<comment> \<open>(closing quote), results loaded\<close>
  "MSG_SEARCH_OK_TAIL = utf8 [0x22, 0xEF, 0xBC, 0x8C, 0xE7, 0xBB, 0x93, 0xE6, 0x9E, 0x9C, 0xE5, 0xB7, 0xB2, 0xE5, 0x8A, 0xA0, 0xE8, 0xBD, 0xBD]"

definition MSG_SEARCH_FAIL :: string where
  \<comment> \<open>search failed\<close>
  "MSG_SEARCH_FAIL = utf8 [0xE6, 0x90, 0x9C, 0xE7, 0xB4, 0xA2, 0xE5, 0xA4, 0xB1, 0xE8, 0xB4, 0xA5, 0x3A, 0x20]"

definition MSG_NOT_INITIALIZED :: string where
  \<comment> \<open>browser not initialized\<close>
  "MSG_NOT_INITIALIZED = utf8 [0xE6, 0xB5, 0x8F, 0xE8, 0xA7, 0x88, 0xE5, 0x99, 0xA8, 0xE6, 0x9C, 0xAA, 0xE5, 0x88, 0x9D, 0xE5, 0xA7, 0x8B, 0xE5, 0x8C, 0x96]"

definition MSG_SHOT_OK :: string where
  \<comment> \<open>screenshot done\<close>
  "MSG_SHOT_OK = utf8 [0xE9, 0xA1, 0xB5, 0xE9, 0x9D, 0xA2, 0xE6, 0x88, 0xAA, 0xE5, 0x9B, 0xBE, 0xE5, 0xAE, 0x8C, 0xE6, 0x88, 0x90]"

definition MSG_SHOT_FAIL :: string where
  \<comment> \<open>screenshot failed\<close>
  "MSG_SHOT_FAIL = utf8 [0xE6, 0x88, 0xAA, 0xE5, 0x9B, 0xBE, 0xE5, 0xA4, 0xB1, 0xE8, 0xB4, 0xA5, 0x3A, 0x20]"

definition MSG_CONTENT_OK :: string where
  \<comment> \<open>content fetched\<close>
  "MSG_CONTENT_OK = utf8 [0xE9, 0xA1, 0xB5, 0xE9, 0x9D, 0xA2, 0xE5, 0x86, 0x85, 0xE5, 0xAE, 0xB9, 0xE8, 0x8E, 0xB7, 0xE5, 0x8F, 0x96, 0xE5, 0xAE, 0x8C, 0xE6, 0x88, 0x90]"

definition MSG_CONTENT_FAIL :: string where
  \<comment> \<open>fetching content failed\<close>
  "MSG_CONTENT_FAIL = utf8 [0xE8, 0x8E, 0xB7, 0xE5, 0x8F, 0x96, 0xE5, 0x86, 0x85, 0xE5, 0xAE, 0xB9, 0xE5, 0xA4, 0xB1, 0xE8, 0xB4, 0xA5, 0x3A, 0x20]"

definition MSG_CLICK_OK :: string where
  \<comment> \<open>clicked element\<close>
  "MSG_CLICK_OK = utf8 [0xE6, 0x88, 0x90, 0xE5, 0x8A, 0x9F, 0xE7, 0x82, 0xB9, 0xE5, 0x87, 0xBB, 0xE5, 0x85, 0x83, 0xE7, 0xB4, 0xA0, 0x3A, 0x20]"

definition MSG_CLICK_FAIL :: string where
  \<comment> \<open>click failed\<close>
  "MSG_CLICK_FAIL = utf8 [0xE7, 0x82, 0xB9, 0xE5, 0x87, 0xBB, 0xE5, 0x85, 0x83, 0xE7, 0xB4, 0xA0, 0xE5, 0xA4, 0xB1, 0xE8, 0xB4, 0xA5, 0x3A, 0x20]"

definition MSG_TYPE_OK :: string where
  \<comment> \<open>typed text into\<close>
  "MSG_TYPE_OK = utf8 [0xE6, 0x88, 0x90, 0xE5, 0x8A, 0x9F, 0xE8, 0xBE, 0x93, 0xE5, 0x85, 0xA5, 0xE6, 0x96, 0x87, 0xE6, 0x9C, 0xAC, 0xE5, 0x88, 0xB0, 0x3A, 0x20]"

definition MSG_TYPE_FAIL :: string where
  \<comment> \<open>typing failed\<close>
  "MSG_TYPE_FAIL = utf8 [0xE8, 0xBE, 0x93, 0xE5, 0x85, 0xA5, 0xE6, 0x96, 0x87, 0xE6, 0x9C, 0xAC, 0xE5, 0xA4, 0xB1, 0xE8, 0xB4, 0xA5, 0x3A, 0x20]"

definition MSG_WAIT_OK :: string where
  \<comment> \<open>element appeared\<close>
  "MSG_WAIT_OK = utf8 [0xE5, 0x85, 0x83, 0xE7, 0xB4, 0xA0, 0xE5, 0xB7, 0xB2, 0xE5, 0x87, 0xBA, 0xE7, 0x8E, 0xB0, 0x3A, 0x20]"

definition MSG_WAIT_FAIL :: string where
  \<comment> \<open>waiting for element failed\<close>
  "MSG_WAIT_FAIL = utf8 [0xE7, 0xAD, 0x89, 0xE5, 0xBE, 0x85, 0xE5, 0x85, 0x83, 0xE7, 0xB4, 0xA0, 0xE5, 0xA4, 0xB1, 0xE8, 0xB4, 0xA5, 0x3A, 0x20]"

definition MSG_SCROLL_OK :: string where
  \<comment> \<open>page scrolled\<close>
  "MSG_SCROLL_OK = utf8 [0xE9, 0xA1, 0xB5, 0xE9, 0x9D, 0xA2, 0xE6, 0xBB, 0x9A, 0xE5, 0x8A, 0xA8, 0xE5, 0xAE, 0x8C, 0xE6, 0x88, 0x90, 0x3A, 0x20]"

definition MSG_SCROLL_FAIL :: string where
  \<comment> \<open>scrolling failed\<close>
  "MSG_SCROLL_FAIL = utf8 [0xE9, 0xA1, 0xB5, 0xE9, 0x9D, 0xA2, 0xE6, 0xBB, 0x9A, 0xE5, 0x8A, 0xA8, 0xE5, 0xA4, 0xB1, 0xE8, 0xB4, 0xA5, 0x3A, 0x20]"

definition MSG_CLOSE_OK :: string where
  \<comment> \<open>browser closed\<close>
  "MSG_CLOSE_OK = utf8 [0xE6, 0xB5, 0x8F, 0xE8, 0xA7, 0x88, 0xE5, 0x99, 0xA8, 0xE5, 0xB7, 0xB2, 0xE5, 0x85, 0xB3, 0xE9, 0x97, 0xAD]"

definition MSG_CLOSE_FAIL :: string where
  \<comment> \<open>closing the browser failed\<close>
  "MSG_CLOSE_FAIL = utf8 [0xE5, 0x85, 0xB3, 0xE9, 0x97, 0xAD, 0xE6, 0xB5, 0x8F, 0xE8, 0xA7, 0x88, 0xE5, 0x99, 0xA8, 0xE5, 0xA4, 0xB1, 0xE8, 0xB4, 0xA5, 0x3A, 0x20]"

definition MSG_UNKNOWN_TOOL :: string where
  \<comment> \<open>unknown tool\<close>
  "MSG_UNKNOWN_TOOL = utf8 [0xE6, 0x9C, 0xAA, 0xE7, 0x9F, 0xA5, 0xE7, 0x9A, 0x84, 0xE5, 0xB7, 0xA5, 0xE5, 0x85, 0xB7, 0x3A, 0x20]"

definition MSG_TOOL_FAIL :: string where
  \<comment> \<open>tool execution failed\<close>
  "MSG_TOOL_FAIL = utf8 [0xE5, 0xB7, 0xA5, 0xE5, 0x85, 0xB7, 0xE6, 0x89, 0xA7, 0xE8, 0xA1, 0x8C, 0xE5, 0xA4, 0xB1, 0xE8, 0xB4, 0xA5, 0x3A, 0x20]"

text \<open>JavaScript's coercions, on values that are absent (\<open>undefined\<close>, here \<open>None\<close>)
  or of the type the tool schema declares.\<close>

definition or_str :: "string option \<Rightarrow> string \<Rightarrow> string" where
  \<comment> \<open>\<open>a || d\<close> on a string: \<open>undefined\<close> and the empty string are falsy\<close>
  "or_str a d = (case a of None \<Rightarrow> d | Some v \<Rightarrow> if v = [] then d else v)"

definition or_num :: "int option \<Rightarrow> int \<Rightarrow> int" where
  \<comment> \<open>\<open>a || d\<close> on a number: \<open>undefined\<close> and \<open>0\<close> are falsy\<close>
  "or_num a d = (case a of None \<Rightarrow> d | Some v \<Rightarrow> if v = 0 then d else v)"

definition not_false :: "bool option \<Rightarrow> bool" where
  \<comment> \<open>\<open>a !== false\<close>\<close>
  "not_false a = (case a of None \<Rightarrow> True | Some b \<Rightarrow> b)"

definition truthy_str :: "string option \<Rightarrow> bool" where
  \<comment> \<open>\<open>if (a)\<close> on a string, \<open>null\<close> or \<open>undefined\<close>\<close>
  "truthy_str a = (case a of None \<Rightarrow> False | Some v \<Rightarrow> v \<noteq> [])"

definition js_str :: "string option \<Rightarrow> string" where
  \<comment> \<open>a value inside a template literal\<close>
  "js_str a = (case a of None \<Rightarrow> ''undefined'' | Some v \<Rightarrow> v)"

definition js_val :: "string option \<Rightarrow> jvalue" where
  "js_val a = (case a of None \<Rightarrow> JUndefined | Some v \<Rightarrow> JStr v)"

section \<open>The browser library as an environment\<close>

record element =
  textContent :: string
  innerHTML :: string

record document =
  matches :: "string \<Rightarrow> element list"  \<comment> \<open>the elements a selector matches, in document order\<close>
  scrollHeight :: int  \<comment> \<open>\<open>document.body.scrollHeight\<close>\<close>

text \<open>What the library answers to one call: it throws an error with a message, or it
  succeeds; \<open>returned\<close> is the string a call returns (URL, title, markup, base64 image) and
  \<open>snapshot\<close> the document the call sees.\<close>

record reply =
  fails :: "string option"
  returned :: string
  snapshot :: document

record environment =
  CHROME_PATH :: "string option"  \<comment> \<open>\<open>process.env.CHROME_PATH\<close>\<close>
  reply_at :: "nat \<Rightarrow> reply"  \<comment> \<open>the answer to the n-th call made on the library\<close>

record launch_options =
  headless :: bool
  defaultViewport :: "int \<times> int"
  executablePath :: "string option"
  launch_args :: "string list"

record launch_overrides =
  set_headless :: "bool option"
  set_defaultViewport :: "(int \<times> int) option"
  set_executablePath :: "string option option"
  set_launch_args :: "string list option"

record goto_options =
  waitUntil :: string
  goto_timeout :: int

record goto_overrides =
  set_waitUntil :: "string option"
  set_goto_timeout :: "int option"

record screenshot_options =
  image_type :: string
  fullPage :: bool
  quality :: int

record screenshot_overrides =
  set_image_type :: "string option"
  set_fullPage :: "bool option"
  set_quality :: "int option"

record type_options =
  clear :: "bool option"
  delay :: "int option"

record scroll_options =
  set_direction :: "string option"
  set_distance :: "int option"
  set_smooth :: "bool option"

text \<open>The functions the shell sends into the page.\<close>

datatype script =
    ClearSearchBox
  | ScrollScript string int bool

text \<open>What a script does in the page.\<close>

datatype window_call =
    SetValue string string
  | ScrollBy int "string option"
  | ScrollTo int "string option"

text \<open>The calls made on the library, as logged. Browsers and pages are named by numbers.\<close>

datatype call =
    Launch launch_options
  | BrowserClose nat
  | NewPage nat
  | SetUserAgent nat string
  | Goto nat "string option" goto_options
  | WaitForSelector nat "string option" int
  | Click nat "string option" "int option"
  | Evaluate nat script
  | TypeKeys nat "string option" "string option" "int option"
  | KeyboardPress nat string
  | PageUrl nat
  | PageTitle nat
  | Screenshot nat screenshot_options
  | EvalSelector nat string
  | PageContent nat

text \<open>The controller object (\<open>browser\<close>, \<open>page\<close>, \<open>isInitialized\<close>) together with the
  outside world: the calls made so far and the browser processes that are running.\<close>

record system =
  browser :: "nat option"
  page :: "nat option"
  isInitialized :: bool
  calls :: "call list"
  live :: "nat set"

definition constructed :: system where
  \<comment> \<open>\<open>new ChromeController()\<close>, before any call\<close>
  "constructed = \<lparr>browser = None, page = None, isInitialized = False, calls = [], live = {}\<rparr>"

section \<open>Actions: state, results and exceptions\<close>

type_synonym ('e, 'a) action = "system \<Rightarrow> ('e + 'a) \<times> system"

definition ret :: "'a \<Rightarrow> ('e, 'a) action" where
  "ret x s = (Inr x, s)"

definition throw :: "'e \<Rightarrow> ('e, 'a) action" where
  "throw e s = (Inl e, s)"

definition andThen :: "('e, 'a) action \<Rightarrow> ('a \<Rightarrow> ('e, 'b) action) \<Rightarrow> ('e, 'b) action" where
  "andThen m f s = (case m s of (Inl e, s') \<Rightarrow> (Inl e, s') | (Inr x, s') \<Rightarrow> f x s')"

definition tryCatch :: "('e, 'a) action \<Rightarrow> ('e \<Rightarrow> ('f, 'a) action) \<Rightarrow> ('f, 'a) action" where
  "tryCatch m h s = (case m s of (Inl e, s') \<Rightarrow> h e s' | (Inr x, s') \<Rightarrow> (Inr x, s'))"

definition reads :: "(system \<Rightarrow> 'a) \<Rightarrow> ('e, 'a) action" where
  "reads f s = (Inr (f s), s)"

definition modify :: "(system \<Rightarrow> system) \<Rightarrow> ('e, unit) action" where
  "modify f s = (Inr (), f s)"

text \<open>One call on the library: it is logged, and the environment's answer to it decides
  whether it throws.\<close>

definition drive :: "environment \<Rightarrow> call \<Rightarrow> (string, reply) action" where
  "drive env c s =
     (let r = reply_at env (length (calls s));
          s' = s\<lparr>calls := calls s @ [c]\<rparr>
      in case fails r of Some m \<Rightarrow> (Inl m, s') | None \<Rightarrow> (Inr r, s'))"

definition puppeteer_launch :: "environment \<Rightarrow> launch_options \<Rightarrow> (string, nat) action" where
  \<comment> \<open>a launched browser is a new process, named by the position of the call\<close>
  "puppeteer_launch env opts =
     andThen (reads (\<lambda>s. length (calls s))) (\<lambda>h.
     andThen (drive env (Launch opts)) (\<lambda>_.
     andThen (modify (\<lambda>s. s\<lparr>live := insert h (live s)\<rparr>)) (\<lambda>_.
     ret h)))"

definition browser_close :: "environment \<Rightarrow> nat \<Rightarrow> (string, unit) action" where
  "browser_close env b =
     andThen (drive env (BrowserClose b)) (\<lambda>_.
     modify (\<lambda>s. s\<lparr>live := live s - {b}\<rparr>))"

definition browser_newPage :: "environment \<Rightarrow> nat \<Rightarrow> (string, nat) action" where
  "browser_newPage env b =
     andThen (reads (\<lambda>s. length (calls s))) (\<lambda>p.
     andThen (drive env (NewPage b)) (\<lambda>_.
     ret p))"

definition this_page :: "string \<Rightarrow> (nat \<Rightarrow> (string, 'a) action) \<Rightarrow> (string, 'a) action" where
  \<comment> \<open>\<open>this.page.member(...)\<close>: a TypeError when \<open>this.page\<close> is \<open>null\<close>; its
     message names the member between single quotes (\<open>CHR 0x27\<close>)\<close>
  "this_page member k =
     andThen (reads page) (\<lambda>pg.
       case pg of
         None \<Rightarrow>
           throw (''Cannot read properties of null (reading ''
                  @ [CHR 0x27] @ member @ [CHR 0x27] @ '')'')
       | Some p \<Rightarrow> k p)"

definition page_call :: "environment \<Rightarrow> string \<Rightarrow> (nat \<Rightarrow> call) \<Rightarrow> (string, reply) action" where
  "page_call env member c = this_page member (\<lambda>p. drive env (c p))"

definition textContent_or_innerHTML :: "element \<Rightarrow> string" where
  \<comment> \<open>\<open>el => el.textContent || el.innerHTML\<close>\<close>
  "textContent_or_innerHTML el = (if textContent el \<noteq> [] then textContent el else innerHTML el)"

definition page_eval_selector :: "environment \<Rightarrow> string \<Rightarrow> (string, string) action" where
  \<comment> \<open>\<open>this.page.$eval(selector, el => el.textContent || el.innerHTML)\<close>: one call on the
     library, which throws the environment's failure, or, when the selector matches no
     element, its own error, whose message puts the selector between double quotes
     (\<open>CHR 0x22\<close>); otherwise it runs the function on the first element matched\<close>
  "page_eval_selector env selector =
     andThen (page_call env ''$eval'' (\<lambda>p. EvalSelector p selector)) (\<lambda>r.
       case matches (snapshot r) selector of
         [] \<Rightarrow>
           throw (''Error: failed to find element matching selector ''
                  @ [CHR 0x22] @ selector @ [CHR 0x22])
       | el # _ \<Rightarrow> ret (textContent_or_innerHTML el))"

fun run_script :: "script \<Rightarrow> document \<Rightarrow> window_call list" where
  "run_script ClearSearchBox doc =
     (case matches doc ''#sb_form_q'' of
        [] \<Rightarrow> []
      | searchBox # _ \<Rightarrow> [SetValue ''#sb_form_q'' ''''])"
| "run_script (ScrollScript direction distance smooth) doc =
     (let scrollOptions = (if smooth then Some ''smooth'' else None) in
      if direction = ''down'' then [ScrollBy distance scrollOptions]
      else if direction = ''up'' then [ScrollBy (- distance) scrollOptions]
      else if direction = ''top'' then [ScrollTo 0 scrollOptions]
      else if direction = ''bottom'' then [ScrollTo (scrollHeight doc) scrollOptions]
      else [])"

section \<open>The session manager: class ChromeController\<close>

definition envelope :: "(string \<times> jvalue) list \<Rightarrow> string \<Rightarrow> jvalue" where
  \<comment> \<open>\<open>{ success: true, ...fields, message }\<close>\<close>
  "envelope payload message =
     JObj ((''success'', JBool True) # payload @ [(''message'', JStr message)])"

definition USER_AGENT :: string where
  "USER_AGENT = ''Mozilla/5.0 (Windows NT 10.0; Win64; x64) AppleWebKit/537.36 (KHTML, like Gecko) Chrome/120.0.0.0 Safari/537.36''"

definition defaultLaunch :: "environment \<Rightarrow> launch_options" where
  "defaultLaunch env =
     \<lparr>headless = False,
      defaultViewport = (1920, 1080),
      executablePath = (if truthy_str (CHROME_PATH env) then CHROME_PATH env else None),
      launch_args =
        [''--no-sandbox'',
         ''--disable-setuid-sandbox'',
         ''--disable-dev-shm-usage'',
         ''--disable-accelerated-2d-canvas'',
         ''--no-first-run'',
         ''--no-zygote'',
         ''--disable-gpu'',
         ''--disable-web-security'',
         ''--disable-features=VizDisplayCompositor'']\<rparr>"

definition over :: "'a \<Rightarrow> 'a option \<Rightarrow> 'a" where
  \<comment> \<open>one key of \<open>{ ...defaultOptions, ...options }\<close>\<close>
  "over d v = (case v of None \<Rightarrow> d | Some x \<Rightarrow> x)"

definition merge_launch :: "launch_options \<Rightarrow> launch_overrides \<Rightarrow> launch_options" where
  "merge_launch d opts =
     \<lparr>headless = over (headless d) (set_headless opts),
      defaultViewport = over (defaultViewport d) (set_defaultViewport opts),
      executablePath = over (executablePath d) (set_executablePath opts),
      launch_args = over (launch_args d) (set_launch_args opts)\<rparr>"

definition no_launch_overrides :: launch_overrides where
  "no_launch_overrides =
     \<lparr>set_headless = None, set_defaultViewport = None, set_executablePath = None,
      set_launch_args = None\<rparr>"

definition merge_goto :: "goto_options \<Rightarrow> goto_overrides \<Rightarrow> goto_options" where
  "merge_goto d opts =
     \<lparr>waitUntil = over (waitUntil d) (set_waitUntil opts),
      goto_timeout = over (goto_timeout d) (set_goto_timeout opts)\<rparr>"

definition merge_screenshot :: "screenshot_options \<Rightarrow> screenshot_overrides \<Rightarrow> screenshot_options" where
  "merge_screenshot d opts =
     \<lparr>image_type = over (image_type d) (set_image_type opts),
      fullPage = over (fullPage d) (set_fullPage opts),
      quality = over (quality d) (set_quality opts)\<rparr>"

definition initialize :: "environment \<Rightarrow> launch_overrides \<Rightarrow> (mcp_error, jvalue) action" where
  "initialize env options =
     tryCatch
       (andThen (reads browser) (\<lambda>old.
        andThen (case old of Some b \<Rightarrow> browser_close env b | None \<Rightarrow> ret ()) (\<lambda>_.
        andThen (puppeteer_launch env (merge_launch (defaultLaunch env) options)) (\<lambda>b.
        andThen (modify (\<lambda>s. s\<lparr>browser := Some b\<rparr>)) (\<lambda>_.
        andThen (browser_newPage env b) (\<lambda>p.
        andThen (modify (\<lambda>s. s\<lparr>page := Some p\<rparr>)) (\<lambda>_.
        andThen (modify (\<lambda>s. s\<lparr>isInitialized := True\<rparr>)) (\<lambda>_.
        andThen (page_call env ''setUserAgent'' (\<lambda>p. SetUserAgent p USER_AGENT)) (\<lambda>_.
        ret (envelope [] MSG_INIT_OK))))))))))
       (\<lambda>message. throw (McpError InternalError (MSG_INIT_FAIL @ message)))"

definition ensure_initialized :: "environment \<Rightarrow> (mcp_error, unit) action" where
  \<comment> \<open>\<open>if (!this.isInitialized) { await this.initialize(); }\<close>\<close>
  "ensure_initialized env =
     andThen (reads isInitialized) (\<lambda>i.
       if \<not> i then andThen (initialize env no_launch_overrides) (\<lambda>_. ret ()) else ret ())"

definition navigateTo ::
  "environment \<Rightarrow> string option \<Rightarrow> goto_overrides \<Rightarrow> (mcp_error, jvalue) action" where
  "navigateTo env url options =
     andThen (ensure_initialized env) (\<lambda>_.
     tryCatch
       (andThen (page_call env ''goto''
           (\<lambda>p. Goto p url
              (merge_goto \<lparr>waitUntil = ''networkidle2'', goto_timeout = 30000\<rparr> options))) (\<lambda>_.
        andThen (page_call env ''url'' PageUrl) (\<lambda>u.
        andThen (page_call env ''title'' PageTitle) (\<lambda>t.
        ret (envelope [(''url'', JStr (returned u)), (''title'', JStr (returned t))]
               (MSG_NAV_OK @ js_str url))))))
       (\<lambda>message. throw (McpError InternalError (MSG_NAV_FAIL @ message))))"

definition search :: "environment \<Rightarrow> string option \<Rightarrow> (mcp_error, jvalue) action" where
  "search env query =
     andThen (ensure_initialized env) (\<lambda>_.
     tryCatch
       (andThen (page_call env ''goto''
           (\<lambda>p. Goto p (Some ''https://www.bing.com'')
              \<lparr>waitUntil = ''networkidle2'', goto_timeout = 30000\<rparr>)) (\<lambda>_.
        andThen (page_call env ''waitForSelector''
           (\<lambda>p. WaitForSelector p (Some ''#sb_form_q'') 10000)) (\<lambda>_.
        andThen (page_call env ''click'' (\<lambda>p. Click p (Some ''#sb_form_q'') None)) (\<lambda>_.
        andThen (page_call env ''evaluate'' (\<lambda>p. Evaluate p ClearSearchBox)) (\<lambda>_.
        andThen (page_call env ''type'' (\<lambda>p. TypeKeys p (Some ''#sb_form_q'') query None)) (\<lambda>_.
        andThen (page_call env ''keyboard'' (\<lambda>p. KeyboardPress p ''Enter'')) (\<lambda>_.
        andThen (page_call env ''waitForSelector''
           (\<lambda>p. WaitForSelector p (Some ''#b_results'') 15000)) (\<lambda>_.
        andThen (page_call env ''url'' PageUrl) (\<lambda>u.
        andThen (page_call env ''title'' PageTitle) (\<lambda>t.
        ret (envelope
               [(''query'', js_val query), (''url'', JStr (returned u)),
                (''title'', JStr (returned t))]
               (MSG_SEARCH_OK_HEAD @ js_str query @ MSG_SEARCH_OK_TAIL))))))))))))
       (\<lambda>message. throw (McpError InternalError (MSG_SEARCH_FAIL @ message))))"

definition require_page :: "(mcp_error, unit) action" where
  \<comment> \<open>\<open>if (!this.page) { throw new McpError(ErrorCode.InvalidRequest, ...); }\<close>\<close>
  "require_page =
     andThen (reads page) (\<lambda>pg.
       if pg = None then throw (McpError InvalidRequest MSG_NOT_INITIALIZED) else ret ())"

definition takeScreenshot :: "environment \<Rightarrow> screenshot_overrides \<Rightarrow> (mcp_error, jvalue) action" where
  "takeScreenshot env options =
     andThen require_page (\<lambda>_.
     tryCatch
       (andThen (page_call env ''screenshot''
           (\<lambda>p. Screenshot p
              (merge_screenshot \<lparr>image_type = ''png'', fullPage = True, quality = 90\<rparr> options))) (\<lambda>shot.
        ret (envelope [(''screenshot'', JStr (''data:image/png;base64,'' @ returned shot))]
               MSG_SHOT_OK)))
       (\<lambda>message. throw (McpError InternalError (MSG_SHOT_FAIL @ message))))"

definition getContent :: "environment \<Rightarrow> string option \<Rightarrow> (mcp_error, jvalue) action" where
  "getContent env selector =
     andThen require_page (\<lambda>_.
     tryCatch
       (andThen (case (if truthy_str selector then selector else None) of
                   Some sel \<Rightarrow> page_eval_selector env sel
                 | None \<Rightarrow> andThen (page_call env ''content'' PageContent) (\<lambda>r. ret (returned r))) (\<lambda>content.
        andThen (page_call env ''url'' PageUrl) (\<lambda>u.
        andThen (page_call env ''title'' PageTitle) (\<lambda>t.
        ret (envelope
               [(''content'', JStr content), (''url'', JStr (returned u)),
                (''title'', JStr (returned t))]
               MSG_CONTENT_OK)))))
       (\<lambda>message. throw (McpError InternalError (MSG_CONTENT_FAIL @ message))))"

record click_options =
  clickCount :: "int option"

definition clickElement ::
  "environment \<Rightarrow> string option \<Rightarrow> click_options \<Rightarrow> (mcp_error, jvalue) action" where
  "clickElement env selector options =
     andThen require_page (\<lambda>_.
     tryCatch
       (andThen (page_call env ''waitForSelector'' (\<lambda>p. WaitForSelector p selector 10000)) (\<lambda>_.
        andThen (page_call env ''click'' (\<lambda>p. Click p selector (clickCount options))) (\<lambda>_.
        ret (envelope [(''selector'', js_val selector)] (MSG_CLICK_OK @ js_str selector)))))
       (\<lambda>message. throw (McpError InternalError (MSG_CLICK_FAIL @ message))))"

definition typeText ::
  "environment \<Rightarrow> string option \<Rightarrow> string option \<Rightarrow> type_options \<Rightarrow> (mcp_error, jvalue) action" where
  "typeText env selector txt options =
     andThen require_page (\<lambda>_.
     tryCatch
       (andThen (page_call env ''waitForSelector'' (\<lambda>p. WaitForSelector p selector 10000)) (\<lambda>_.
        andThen (if clear options = Some True
                 then andThen (page_call env ''click'' (\<lambda>p. Click p selector (Some 3))) (\<lambda>_. ret ())
                 else ret ()) (\<lambda>_.
        andThen (page_call env ''type''
           (\<lambda>p. TypeKeys p selector txt (Some (or_num (delay options) 50)))) (\<lambda>_.
        ret (envelope [(''selector'', js_val selector), (''text'', js_val txt)]
               (MSG_TYPE_OK @ js_str selector))))))
       (\<lambda>message. throw (McpError InternalError (MSG_TYPE_FAIL @ message))))"

definition waitForElement ::
  "environment \<Rightarrow> string option \<Rightarrow> int option \<Rightarrow> (mcp_error, jvalue) action" where
  "waitForElement env selector timeout =
     andThen require_page (\<lambda>_.
     tryCatch
       (andThen (page_call env ''waitForSelector''
           (\<lambda>p. WaitForSelector p selector (over 10000 timeout))) (\<lambda>_.
        ret (envelope [(''selector'', js_val selector)] (MSG_WAIT_OK @ js_str selector))))
       (\<lambda>message. throw (McpError InternalError (MSG_WAIT_FAIL @ message))))"

definition scrollPage :: "environment \<Rightarrow> scroll_options \<Rightarrow> (mcp_error, jvalue) action" where
  "scrollPage env options =
     andThen require_page (\<lambda>_.
     tryCatch
       (let direction = over ''down'' (set_direction options);
            distance = over 500 (set_distance options);
            smooth = over True (set_smooth options)
        in andThen (page_call env ''evaluate''
             (\<lambda>p. Evaluate p (ScrollScript direction distance smooth))) (\<lambda>_.
           ret (envelope [(''direction'', JStr direction), (''distance'', JNum distance)]
                  (MSG_SCROLL_OK @ direction))))
       (\<lambda>message. throw (McpError InternalError (MSG_SCROLL_FAIL @ message))))"

definition close :: "environment \<Rightarrow> (mcp_error, jvalue) action" where
  "close env =
     tryCatch
       (andThen (reads browser) (\<lambda>old.
          case old of
            Some b \<Rightarrow>
              andThen (browser_close env b) (\<lambda>_.
              andThen (modify (\<lambda>s. s\<lparr>browser := None\<rparr>)) (\<lambda>_.
              andThen (modify (\<lambda>s. s\<lparr>page := None\<rparr>)) (\<lambda>_.
              andThen (modify (\<lambda>s. s\<lparr>isInitialized := False\<rparr>)) (\<lambda>_.
              ret (envelope [] MSG_CLOSE_OK)))))
          | None \<Rightarrow> ret JUndefined))
       (\<lambda>message. throw (McpError InternalError (MSG_CLOSE_FAIL @ message)))"

text \<open>The operations of the session manager as data, to speak of all of them at once.\<close>

datatype operation =
    Initialize launch_overrides
  | NavigateTo "string option" goto_overrides
  | Search "string option"
  | TakeScreenshot screenshot_overrides
  | GetContent "string option"
  | ClickElement "string option" click_options
  | TypeText "string option" "string option" type_options
  | WaitForElement "string option" "int option"
  | ScrollPage scroll_options
  | Close

fun perform :: "environment \<Rightarrow> operation \<Rightarrow> (mcp_error, jvalue) action" where
  "perform env (Initialize options) = initialize env options"
| "perform env (NavigateTo url options) = navigateTo env url options"
| "perform env (Search query) = search env query"
| "perform env (TakeScreenshot options) = takeScreenshot env options"
| "perform env (GetContent selector) = getContent env selector"
| "perform env (ClickElement selector options) = clickElement env selector options"
| "perform env (TypeText selector txt options) = typeText env selector txt options"
| "perform env (WaitForElement selector timeout) = waitForElement env selector timeout"
| "perform env (ScrollPage options) = scrollPage env options"
| "perform env Close = close env"

section \<open>The request router: the call-tool handler\<close>

text \<open>\<open>request.params.arguments\<close>: absent as a whole (\<open>None\<close> where it is passed), or an
  object whose keys are each absent or of the type the tool's schema declares.\<close>

record tool_args =
  arg_url :: "string option"
  arg_waitUntil :: "string option"
  arg_query :: "string option"
  arg_fullPage :: "bool option"
  arg_quality :: "int option"
  arg_selector :: "string option"
  arg_text :: "string option"
  arg_clear :: "bool option"
  arg_timeout :: "int option"
  arg_direction :: "string option"
  arg_distance :: "int option"
  arg_smooth :: "bool option"

text \<open>\<open>{ type: 'text', text: JSON.stringify(value, null, 2) }\<close>, kept as the value
  that is serialised.\<close>

datatype content_item = TextOf jvalue

type_synonym response = "content_item list"

definition args_member :: "tool_args option \<Rightarrow> string \<Rightarrow> (js_error, tool_args) action" where
  \<comment> \<open>\<open>args.member\<close>: a TypeError when \<open>args\<close> is \<open>undefined\<close>; its message names
     the member between single quotes (\<open>CHR 0x27\<close>)\<close>
  "args_member args member =
     (case args of
        None \<Rightarrow>
          throw (Plain (''Cannot read properties of undefined (reading ''
                        @ [CHR 0x27] @ member @ [CHR 0x27] @ '')''))
      | Some a \<Rightarrow> ret a)"

definition respond :: "(mcp_error, jvalue) action \<Rightarrow> (js_error, response) action" where
  \<comment> \<open>\<open>return { content: [{ type: 'text', text: JSON.stringify(await operation, null, 2) }] }\<close>\<close>
  "respond operation =
     andThen (tryCatch operation (\<lambda>e. throw (Structured e))) (\<lambda>v. ret [TextOf v])"

definition callTool :: "environment \<Rightarrow> string \<Rightarrow> tool_args option \<Rightarrow> (mcp_error, response) action" where
  "callTool env name args =
     tryCatch
       (if name = ''chrome_navigate'' then
          andThen (args_member args ''url'') (\<lambda>a.
            respond (navigateTo env (arg_url a)
              \<lparr>set_waitUntil = Some (or_str (arg_waitUntil a) ''networkidle2''),
               set_goto_timeout = None\<rparr>))
        else if name = ''chrome_search'' then
          andThen (args_member args ''query'') (\<lambda>a. respond (search env (arg_query a)))
        else if name = ''chrome_screenshot'' then
          andThen (args_member args ''fullPage'') (\<lambda>a.
            respond (takeScreenshot env
              \<lparr>set_image_type = None,
               set_fullPage = Some (not_false (arg_fullPage a)),
               set_quality = Some (or_num (arg_quality a) 90)\<rparr>))
        else if name = ''chrome_get_content'' then
          andThen (args_member args ''selector'') (\<lambda>a. respond (getContent env (arg_selector a)))
        else if name = ''chrome_click'' then
          andThen (args_member args ''selector'') (\<lambda>a.
            respond (clickElement env (arg_selector a) \<lparr>clickCount = None\<rparr>))
        else if name = ''chrome_type'' then
          andThen (args_member args ''selector'') (\<lambda>a.
            respond (typeText env (arg_selector a) (arg_text a)
              \<lparr>clear = arg_clear a, delay = None\<rparr>))
        else if name = ''chrome_wait_for_element'' then
          andThen (args_member args ''selector'') (\<lambda>a.
            respond (waitForElement env (arg_selector a) (Some (or_num (arg_timeout a) 10000))))
        else if name = ''chrome_scroll'' then
          andThen (args_member args ''direction'') (\<lambda>a.
            respond (scrollPage env
              \<lparr>set_direction = Some (or_str (arg_direction a) ''down''),
               set_distance = Some (or_num (arg_distance a) 500),
               set_smooth = Some (not_false (arg_smooth a))\<rparr>))
        else if name = ''chrome_close'' then
          respond (close env)
        else throw (Structured (McpError MethodNotFound (MSG_UNKNOWN_TOOL @ name))))
       (\<lambda>error.
          case error of
            Structured e \<Rightarrow> throw e
          | Plain message \<Rightarrow> throw (McpError InternalError (MSG_TOOL_FAIL @ message)))"

definition TOOL_NAMES :: "string list" where
  \<comment> \<open>the cases of the handler's \<open>switch\<close>\<close>
  "TOOL_NAMES =
     [''chrome_navigate'', ''chrome_search'', ''chrome_screenshot'', ''chrome_get_content'',
      ''chrome_click'', ''chrome_type'', ''chrome_wait_for_element'', ''chrome_scroll'',
      ''chrome_close'']"

section \<open>Notions used in the statements\<close>

text \<open>An action keeps a property of the system when the property survives the action,
  whether it returns or throws.\<close>

definition keeps :: "(system \<Rightarrow> bool) \<Rightarrow> ('e, 'a) action \<Rightarrow> bool" where
  "keeps P m = (\<forall>s. P s \<longrightarrow> P (snd (m s)))"

definition page_needs_browser :: "system \<Rightarrow> bool" where
  \<comment> \<open>the page handle is non-null only if the browser handle is non-null\<close>
  "page_needs_browser s = (page s = None \<or> browser s \<noteq> None)"

definition live_is_held :: "system \<Rightarrow> bool" where
  \<comment> \<open>every running browser is the one the controller holds\<close>
  "live_is_held s = (live s \<subseteq> set_option (browser s))"

definition is_envelope :: "jvalue \<Rightarrow> bool" where
  \<comment> \<open>an object with \<open>success: true\<close> and a \<open>message\<close>\<close>
  "is_envelope v =
     (case v of
        JObj kvs \<Rightarrow> map_of kvs ''success'' = Some (JBool True) \<and> map_of kvs ''message'' \<noteq> None
      | _ \<Rightarrow> False)"

definition search_calls :: "nat \<Rightarrow> string option \<Rightarrow> call list" where
  \<comment> \<open>the calls of \<open>search\<close> on page \<open>p\<close>, in the order of the source\<close>
  "search_calls p query =
     [Goto p (Some ''https://www.bing.com'') \<lparr>waitUntil = ''networkidle2'', goto_timeout = 30000\<rparr>,
      WaitForSelector p (Some ''#sb_form_q'') 10000,
      Click p (Some ''#sb_form_q'') None,
      Evaluate p ClearSearchBox,
      TypeKeys p (Some ''#sb_form_q'') query None,
      KeyboardPress p ''Enter'',
      WaitForSelector p (Some ''#b_results'') 15000,
      PageUrl p,
      PageTitle p]"

fun with_behavior :: "string option \<Rightarrow> window_call \<Rightarrow> window_call" where
  "with_behavior b (ScrollBy offset _) = ScrollBy offset b"
| "with_behavior b (ScrollTo offset _) = ScrollTo offset b"
| "with_behavior b (SetValue sel v) = SetValue sel v"

text \<open>Concrete inputs: an environment in which every call succeeds on an empty page, one
  in which the page has headings, one in which navigation fails, a session that is open,
  and empty option objects.\<close>

definition blank_reply :: reply where
  "blank_reply = \<lparr>fails = None, returned = [], snapshot = \<lparr>matches = (\<lambda>_. []), scrollHeight = 0\<rparr>\<rparr>"

definition calm :: environment where
  "calm = \<lparr>CHROME_PATH = None, reply_at = (\<lambda>_. blank_reply)\<rparr>"

definition heading_page :: document where
  "heading_page =
     \<lparr>matches = (\<lambda>sel. if sel = ''h1''
                         then [\<lparr>textContent = [], innerHTML = ''<img>''\<rparr>,
                               \<lparr>textContent = ''second'', innerHTML = ''<b>second</b>''\<rparr>]
                         else []),
      scrollHeight = 4000\<rparr>"

definition heading_env :: environment where
  "heading_env =
     \<lparr>CHROME_PATH = None,
      reply_at = (\<lambda>_. \<lparr>fails = None, returned = ''<html>'', snapshot = heading_page\<rparr>)\<rparr>"

definition offline :: environment where
  \<comment> \<open>the network is down: the fourth call, a navigation, throws\<close>
  "offline =
     \<lparr>CHROME_PATH = None,
      reply_at = (\<lambda>n. if n = 3 then blank_reply\<lparr>fails := Some ''net::ERR_INTERNET_DISCONNECTED''\<rparr>
                        else blank_reply)\<rparr>"

definition open_session :: system where
  "open_session =
     \<lparr>browser = Some 0, page = Some 1, isInitialized = True,
      calls = [Launch (defaultLaunch calm), NewPage 0, SetUserAgent 1 USER_AGENT],
      live = {0}\<rparr>"


definition no_screenshot_overrides :: screenshot_overrides where
  "no_screenshot_overrides = \<lparr>set_image_type = None, set_fullPage = None, set_quality = None\<rparr>"

definition no_click_options :: click_options where
  "no_click_options = \<lparr>clickCount = None\<rparr>"

definition no_type_options :: type_options where
  "no_type_options = \<lparr>clear = None, delay = None\<rparr>"

definition no_scroll_options :: scroll_options where
  "no_scroll_options = \<lparr>set_direction = None, set_distance = None, set_smooth = None\<rparr>"

definition no_args :: tool_args where
  "no_args =
     \<lparr>arg_url = None, arg_waitUntil = None, arg_query = None, arg_fullPage = None,
      arg_quality = None, arg_selector = None, arg_text = None, arg_clear = None,
      arg_timeout = None, arg_direction = None, arg_distance = None, arg_smooth = None\<rparr>"

definition first_argument_read :: "(string \<times> string) list" where
  \<comment> \<open>for each tool that reads its arguments, the member of \<open>args\<close> its case reads first\<close>
  "first_argument_read =
     [(''chrome_navigate'', ''url''), (''chrome_search'', ''query''),
      (''chrome_screenshot'', ''fullPage''), (''chrome_get_content'', ''selector''),
      (''chrome_click'', ''selector''), (''chrome_type'', ''selector''),
      (''chrome_wait_for_element'', ''selector''), (''chrome_scroll'', ''direction'')]"

definition returns_only :: "('a \<Rightarrow> bool) \<Rightarrow> ('e, 'a) action \<Rightarrow> bool" where
  \<comment> \<open>whenever the action returns, what it returns satisfies \<open>Q\<close>\<close>
  "returns_only Q m = (\<forall>s v s'. m s = (Inr v, s') \<longrightarrow> Q v)"

section \<open>Basic facts about actions\<close>

lemmas action_simps = ret_def throw_def andThen_def tryCatch_def reads_def modify_def

lemma require_page_None:
  "page s = None \<Longrightarrow> require_page s = (Inl (McpError InvalidRequest MSG_NOT_INITIALIZED), s)"
  by (simp add: require_page_def action_simps)

lemma require_page_Some: "page s = Some p \<Longrightarrow> require_page s = (Inr (), s)"
  by (simp add: require_page_def action_simps)

lemma page_call_step:
  "page s = Some p \<Longrightarrow>
   andThen (page_call env member c) f s =
     (case fails (reply_at env (length (calls s))) of
        None \<Rightarrow> f (reply_at env (length (calls s))) (s\<lparr>calls := calls s @ [c p]\<rparr>)
      | Some m \<Rightarrow> (Inl m, s\<lparr>calls := calls s @ [c p]\<rparr>))"
  by (simp add: page_call_def this_page_def drive_def Let_def action_simps split: option.splits)

lemma ensure_initialized_skip: "isInitialized s \<Longrightarrow> ensure_initialized env s = (Inr (), s)"
  by (simp add: ensure_initialized_def action_simps)

lemma andThen_assoc: "andThen (andThen m f) g = andThen m (\<lambda>x. andThen (f x) g)"
  by (rule ext) (simp add: andThen_def split: prod.splits sum.splits)

lemma andThen_ret: "andThen (ret x) f = f x"
  by (rule ext) (simp add: andThen_def ret_def)

lemma page_eval_selector_step:
  "page s = Some p \<Longrightarrow>
   andThen (page_eval_selector env selector) f s =
     (let r = reply_at env (length (calls s));
          s' = s\<lparr>calls := calls s @ [EvalSelector p selector]\<rparr>
      in case fails r of
           Some m \<Rightarrow> (Inl m, s')
         | None \<Rightarrow>
             (case matches (snapshot r) selector of
                [] \<Rightarrow>
                  (Inl (''Error: failed to find element matching selector ''
                        @ [CHR 0x22] @ selector @ [CHR 0x22]), s')
              | el # _ \<Rightarrow> f (textContent_or_innerHTML el) s'))"
  by (simp add: page_eval_selector_def page_call_def this_page_def drive_def Let_def action_simps
      split: option.splits list.splits)

section \<open>Actions that need a page\<close>

text \<open>
  C3. In every state whose page handle is null, each of \<open>takeScreenshot\<close>, \<open>getContent\<close>,
  \<open>clickElement\<close>, \<open>typeText\<close>, \<open>waitForElement\<close> and \<open>scrollPage\<close> throws a structured
  error of kind invalid-request, whatever its arguments, and leaves the whole state (the
  controller and the outside world) as it was: no call reaches the library.
\<close>

theorem no_page_invalid_request:
  "page s = None \<Longrightarrow>
     takeScreenshot env shot s = (Inl (McpError InvalidRequest MSG_NOT_INITIALIZED), s)
   \<and> getContent env selector s = (Inl (McpError InvalidRequest MSG_NOT_INITIALIZED), s)
   \<and> clickElement env selector click s = (Inl (McpError InvalidRequest MSG_NOT_INITIALIZED), s)
   \<and> typeText env selector txt typing s = (Inl (McpError InvalidRequest MSG_NOT_INITIALIZED), s)
   \<and> waitForElement env selector timeout s = (Inl (McpError InvalidRequest MSG_NOT_INITIALIZED), s)
   \<and> scrollPage env scroll s = (Inl (McpError InvalidRequest MSG_NOT_INITIALIZED), s)"
  by (simp add: takeScreenshot_def getContent_def clickElement_def typeText_def
      waitForElement_def scrollPage_def andThen_def require_page_None)

theorem no_page_invalid_request_witness:
  "page constructed = None
   \<and> takeScreenshot calm no_screenshot_overrides constructed
       = (Inl (McpError InvalidRequest MSG_NOT_INITIALIZED), constructed)
   \<and> getContent calm (Some ''h1'') constructed
       = (Inl (McpError InvalidRequest MSG_NOT_INITIALIZED), constructed)
   \<and> clickElement calm (Some ''h1'') no_click_options constructed
       = (Inl (McpError InvalidRequest MSG_NOT_INITIALIZED), constructed)
   \<and> typeText calm (Some ''h1'') (Some ''abc'') no_type_options constructed
       = (Inl (McpError InvalidRequest MSG_NOT_INITIALIZED), constructed)
   \<and> waitForElement calm (Some ''h1'') None constructed
       = (Inl (McpError InvalidRequest MSG_NOT_INITIALIZED), constructed)
   \<and> scrollPage calm no_scroll_options constructed
       = (Inl (McpError InvalidRequest MSG_NOT_INITIALIZED), constructed)"
proof -
  have h: "page constructed = None"
    by (simp add: constructed_def)
  show ?thesis
    using h no_page_invalid_request [OF h] by simp
qed

section \<open>Closing a session that is not open\<close>

text \<open>Every operation that returns, returns an envelope; the one exception is \<open>close\<close>
  on a controller that holds no browser.\<close>

lemma returns_only_ret: "Q x \<Longrightarrow> returns_only Q (ret x)"
  by (simp add: returns_only_def ret_def)

lemma returns_only_throw: "returns_only Q (throw e)"
  by (simp add: returns_only_def throw_def)

lemma returns_only_andThen: "(\<And>x. returns_only Q (f x)) \<Longrightarrow> returns_only Q (andThen m f)"
  unfolding returns_only_def andThen_def
  by (auto split: prod.splits sum.splits)

lemma returns_only_tryCatch:
  "returns_only Q m \<Longrightarrow> (\<And>e. returns_only Q (h e)) \<Longrightarrow> returns_only Q (tryCatch m h)"
  unfolding returns_only_def tryCatch_def
  by (auto split: prod.splits sum.splits)

lemma is_envelope_envelope: "is_envelope (envelope payload message)"
  by (simp add: is_envelope_def envelope_def map_add_def split: option.splits)

lemmas returns_only_intros =
  returns_only_andThen returns_only_tryCatch returns_only_ret returns_only_throw
  is_envelope_envelope

lemma close_returns:
  "close env s = (Inr v, s') \<Longrightarrow> is_envelope v \<or> browser s = None \<and> v = JUndefined"
  unfolding close_def browser_close_def drive_def Let_def action_simps
  by (auto simp: is_envelope_envelope split: option.splits)

lemma successes_are_envelopes:
  assumes "perform env op s = (Inr v, s')"
  shows "is_envelope v \<or> op = Close \<and> browser s = None \<and> v = JUndefined"
proof (cases op)
  case Close
  with assms show ?thesis
    by (auto dest: close_returns)
next
  case (Initialize options)
  have "returns_only is_envelope (initialize env options)"
    unfolding initialize_def by (intro returns_only_intros)
  with assms Initialize show ?thesis
    by (auto simp: returns_only_def)
next
  case (NavigateTo url options)
  have "returns_only is_envelope (navigateTo env url options)"
    unfolding navigateTo_def by (intro returns_only_intros)
  with assms NavigateTo show ?thesis
    by (auto simp: returns_only_def)
next
  case (Search query)
  have "returns_only is_envelope (search env query)"
    unfolding search_def by (intro returns_only_intros)
  with assms Search show ?thesis
    by (auto simp: returns_only_def)
next
  case (TakeScreenshot options)
  have "returns_only is_envelope (takeScreenshot env options)"
    unfolding takeScreenshot_def by (intro returns_only_intros)
  with assms TakeScreenshot show ?thesis
    by (auto simp: returns_only_def)
next
  case (GetContent selector)
  have "returns_only is_envelope (getContent env selector)"
    unfolding getContent_def by (intro returns_only_intros)
  with assms GetContent show ?thesis
    by (auto simp: returns_only_def)
next
  case (ClickElement selector options)
  have "returns_only is_envelope (clickElement env selector options)"
    unfolding clickElement_def by (intro returns_only_intros)
  with assms ClickElement show ?thesis
    by (auto simp: returns_only_def)
next
  case (TypeText selector typed options)
  have "returns_only is_envelope (typeText env selector typed options)"
    unfolding typeText_def by (intro returns_only_intros)
  with assms TypeText show ?thesis
    by (auto simp: returns_only_def)
next
  case (WaitForElement selector timeout)
  have "returns_only is_envelope (waitForElement env selector timeout)"
    unfolding waitForElement_def by (intro returns_only_intros)
  with assms WaitForElement show ?thesis
    by (auto simp: returns_only_def)
next
  case (ScrollPage options)
  have "returns_only is_envelope (scrollPage env options)"
    unfolding scrollPage_def Let_def by (intro returns_only_intros)
  with assms ScrollPage show ?thesis
    by (auto simp: returns_only_def)
qed

text \<open>
  C2. \<open>close()\<close> on a controller that holds no browser handle returns \<open>undefined\<close>, not an
  envelope with \<open>success: true\<close> and a message: the branch for an absent handle has no
  \<open>return\<close>. The handler of \<open>chrome_close\<close> then answers with the serialisation of
  \<open>undefined\<close>. The state is untouched.
\<close>

theorem close_without_browser_returns_undefined:
  "close env constructed = (Inr JUndefined, constructed)
   \<and> \<not> is_envelope JUndefined
   \<and> callTool env ''chrome_close'' args constructed = (Inr [TextOf JUndefined], constructed)"
  by (simp add: close_def callTool_def respond_def constructed_def is_envelope_def action_simps)

section \<open>Scrolling\<close>

text \<open>
  C7. With a page present, \<open>scrollPage\<close> makes exactly one call on the library: it sends
  the scroll function into the page with the direction, distance and smooth flag it was
  given, and returns the envelope that echoes direction and distance, or wraps the failure.
  An option that is absent takes its default (\<open>down\<close>, 500, true). In the page, the function
  scrolls relatively by \<open>distance\<close> for direction \<open>down\<close> and by \<open>- distance\<close> for \<open>up\<close>; for
  \<open>top\<close> it scrolls to offset 0 whatever the distance is, and for \<open>bottom\<close> to the
  document's scroll height; for any other direction it does nothing. The smooth flag
  decides the \<open>behavior\<close> option of the scroll and nothing else.
\<close>

theorem scrollPage_directions:
  "scrollPage env
       \<lparr>set_direction = Some direction, set_distance = Some distance, set_smooth = Some smooth\<rparr>
       (s\<lparr>page := Some p\<rparr>)
     = (case fails (reply_at env (length (calls s))) of
          None \<Rightarrow>
            (Inr (JObj [(''success'', JBool True), (''direction'', JStr direction),
                        (''distance'', JNum distance),
                        (''message'', JStr (MSG_SCROLL_OK @ direction))]),
             s\<lparr>page := Some p,
               calls := calls s @ [Evaluate p (ScrollScript direction distance smooth)]\<rparr>)
        | Some m \<Rightarrow>
            (Inl (McpError InternalError (MSG_SCROLL_FAIL @ m)),
             s\<lparr>page := Some p,
               calls := calls s @ [Evaluate p (ScrollScript direction distance smooth)]\<rparr>))
   \<and> scrollPage env options (s\<lparr>page := Some p\<rparr>)
     = scrollPage env
         \<lparr>set_direction = Some (case set_direction options of None \<Rightarrow> ''down'' | Some d \<Rightarrow> d),
          set_distance = Some (case set_distance options of None \<Rightarrow> 500 | Some n \<Rightarrow> n),
          set_smooth = Some (case set_smooth options of None \<Rightarrow> True | Some b \<Rightarrow> b)\<rparr>
         (s\<lparr>page := Some p\<rparr>)
   \<and> run_script (ScrollScript ''down'' distance smooth) doc
     = [ScrollBy distance (if smooth then Some ''smooth'' else None)]
   \<and> run_script (ScrollScript ''up'' distance smooth) doc
     = [ScrollBy (- distance) (if smooth then Some ''smooth'' else None)]
   \<and> run_script (ScrollScript ''top'' distance smooth) doc
     = [ScrollTo 0 (if smooth then Some ''smooth'' else None)]
   \<and> run_script (ScrollScript ''bottom'' distance smooth) doc
     = [ScrollTo (scrollHeight doc) (if smooth then Some ''smooth'' else None)]
   \<and> run_script (ScrollScript direction distance smooth) doc
     = (if direction \<in> {''down'', ''up'', ''top'', ''bottom''}
        then map (with_behavior (if smooth then Some ''smooth'' else None))
               (run_script (ScrollScript direction distance False) doc)
        else [])"
  by (simp add: scrollPage_def require_page_def page_call_def this_page_def drive_def Let_def
      over_def envelope_def action_simps split: option.splits)

theorem scrollPage_directions_witness:
  "scrollPage calm \<lparr>set_direction = Some ''top'', set_distance = Some 7, set_smooth = Some False\<rparr>
       open_session
     = (Inr (JObj [(''success'', JBool True), (''direction'', JStr ''top''),
                   (''distance'', JNum 7), (''message'', JStr (MSG_SCROLL_OK @ ''top''))]),
        open_session\<lparr>calls := calls open_session @ [Evaluate 1 (ScrollScript ''top'' 7 False)]\<rparr>)
   \<and> run_script (ScrollScript ''top'' 7 False) heading_page = [ScrollTo 0 None]
   \<and> scrollPage calm no_scroll_options open_session
     = (Inr (JObj [(''success'', JBool True), (''direction'', JStr ''down''),
                   (''distance'', JNum 500), (''message'', JStr (MSG_SCROLL_OK @ ''down''))]),
        open_session\<lparr>calls := calls open_session @ [Evaluate 1 (ScrollScript ''down'' 500 True)]\<rparr>)
   \<and> run_script (ScrollScript ''down'' 500 True) heading_page = [ScrollBy 500 (Some ''smooth'')]
   \<and> run_script (ScrollScript ''up'' 500 True) heading_page = [ScrollBy (- 500) (Some ''smooth'')]
   \<and> run_script (ScrollScript ''bottom'' 7 False) heading_page = [ScrollTo 4000 None]"
proof -
  have same: "open_session\<lparr>page := Some (Suc 0)\<rparr> = open_session"
    by (simp add: open_session_def)
  have ok: "fails (reply_at calm (length (calls open_session))) = None"
    by (simp add: calm_def blank_reply_def)
  show ?thesis
    using scrollPage_directions [where env = calm and s = open_session and p = 1
        and direction = "''top''" and distance = 7 and smooth = False
        and options = no_scroll_options and doc = heading_page]
      scrollPage_directions [where env = calm and s = open_session and p = 1
        and direction = "''down''" and distance = 500 and smooth = True
        and options = no_scroll_options and doc = heading_page]
      scrollPage_directions [where env = calm and s = open_session and p = 1
        and direction = "''bottom''" and distance = 7 and smooth = False
        and options = no_scroll_options and doc = heading_page]
      ok
    by (simp add: same no_scroll_options_def heading_page_def)
qed

section \<open>Reading content\<close>

text \<open>
  C9. On a session with a page: \<open>getContent\<close> with a selector (a non-empty string) asks
  the library for the elements it matches and returns the text content of the first one,
  or that element's markup when its text is empty; \<open>getContent\<close> with no selector (or
  with the empty string, which the source treats as none) returns the markup of the whole
  page; and \<open>getContent\<close> with a selector that matches no element throws a structured
  error of kind internal-error, not invalid-request.
\<close>

theorem getContent_result:
  "page s = Some p \<Longrightarrow>
   (selector \<noteq> [] \<and> matches (snapshot (reply_at env (length (calls s)))) selector = el # others
      \<and> fails (reply_at env (length (calls s))) = None
      \<and> fails (reply_at env (length (calls s) + 1)) = None
      \<and> fails (reply_at env (length (calls s) + 2)) = None
    \<longrightarrow> getContent env (Some selector) s =
          (Inr (JObj
                  [(''success'', JBool True),
                   (''content'', JStr (if textContent el = [] then innerHTML el else textContent el)),
                   (''url'', JStr (returned (reply_at env (length (calls s) + 1)))),
                   (''title'', JStr (returned (reply_at env (length (calls s) + 2)))),
                   (''message'', JStr MSG_CONTENT_OK)]),
           s\<lparr>calls := calls s @ [EvalSelector p selector, PageUrl p, PageTitle p]\<rparr>))
   \<and> (fails (reply_at env (length (calls s))) = None
      \<and> fails (reply_at env (length (calls s) + 1)) = None
      \<and> fails (reply_at env (length (calls s) + 2)) = None
    \<longrightarrow> getContent env None s =
          (Inr (JObj
                  [(''success'', JBool True),
                   (''content'', JStr (returned (reply_at env (length (calls s))))),
                   (''url'', JStr (returned (reply_at env (length (calls s) + 1)))),
                   (''title'', JStr (returned (reply_at env (length (calls s) + 2)))),
                   (''message'', JStr MSG_CONTENT_OK)]),
           s\<lparr>calls := calls s @ [PageContent p, PageUrl p, PageTitle p]\<rparr>))
   \<and> getContent env (Some []) s = getContent env None s
   \<and> (selector \<noteq> [] \<and> matches (snapshot (reply_at env (length (calls s)))) selector = []
    \<longrightarrow> getContent env (Some selector) s =
          (Inl (McpError InternalError
                  (MSG_CONTENT_FAIL @
                   (case fails (reply_at env (length (calls s))) of
                      Some m \<Rightarrow> m
                    | None \<Rightarrow>
                        ''Error: failed to find element matching selector ''
                        @ [CHR 0x22] @ selector @ [CHR 0x22]))),
           s\<lparr>calls := calls s @ [EvalSelector p selector]\<rparr>))"
  by (simp add: getContent_def andThen_def[of require_page] require_page_Some tryCatch_def
      page_eval_selector_step page_call_step truthy_str_def textContent_or_innerHTML_def
      envelope_def andThen_assoc andThen_ret ret_def throw_def Let_def eval_nat_numeral
      split: option.splits)

theorem getContent_result_witness:
  "getContent heading_env (Some ''h1'') open_session =
     (Inr (JObj [(''success'', JBool True), (''content'', JStr ''<img>''),
                 (''url'', JStr ''<html>''), (''title'', JStr ''<html>''),
                 (''message'', JStr MSG_CONTENT_OK)]),
      open_session\<lparr>calls := calls open_session @ [EvalSelector 1 ''h1'', PageUrl 1, PageTitle 1]\<rparr>)
   \<and> getContent heading_env None open_session =
     (Inr (JObj [(''success'', JBool True), (''content'', JStr ''<html>''),
                 (''url'', JStr ''<html>''), (''title'', JStr ''<html>''),
                 (''message'', JStr MSG_CONTENT_OK)]),
      open_session\<lparr>calls := calls open_session @ [PageContent 1, PageUrl 1, PageTitle 1]\<rparr>)
   \<and> getContent heading_env (Some ''#missing'') open_session =
     (Inl (McpError InternalError
             (MSG_CONTENT_FAIL @ ''Error: failed to find element matching selector ''
              @ [CHR 0x22] @ ''#missing'' @ [CHR 0x22])),
      open_session\<lparr>calls := calls open_session @ [EvalSelector 1 ''#missing'']\<rparr>)"
proof -
  have p: "page open_session = Some 1"
    by (simp add: open_session_def)
  show ?thesis
    using getContent_result [OF p, of "''h1''" heading_env
          "\<lparr>textContent = [], innerHTML = ''<img>''\<rparr>"
          "[\<lparr>textContent = ''second'', innerHTML = ''<b>second</b>''\<rparr>]"]
      getContent_result [OF p, of "''#missing''" heading_env]
    by (simp add: heading_env_def heading_page_def)
qed

section \<open>The call-tool handler\<close>

text \<open>
  C10. In the handler, a quality, distance or timeout of 0 is falsy and is replaced by
  the default, as an absent one is: \<open>chrome_screenshot\<close> with quality 0 calls
  \<open>takeScreenshot\<close> with quality 90, \<open>chrome_scroll\<close> with distance 0 calls \<open>scrollPage\<close> with
  distance 500, and \<open>chrome_wait_for_element\<close> with timeout 0 calls \<open>waitForElement\<close> with
  timeout 10000; each answers exactly as the same request without that argument.
\<close>

theorem falsy_arguments_defaulted:
  "callTool env ''chrome_screenshot'' (Some (a\<lparr>arg_quality := Some 0\<rparr>)) s
     = (case takeScreenshot env
               \<lparr>set_image_type = None, set_fullPage = Some (not_false (arg_fullPage a)),
                set_quality = Some 90\<rparr> s of
          (Inl e, s') \<Rightarrow> (Inl e, s')
        | (Inr v, s') \<Rightarrow> (Inr [TextOf v], s'))
   \<and> callTool env ''chrome_screenshot'' (Some (a\<lparr>arg_quality := Some 0\<rparr>)) s
     = callTool env ''chrome_screenshot'' (Some (a\<lparr>arg_quality := None\<rparr>)) s
   \<and> callTool env ''chrome_scroll'' (Some (a\<lparr>arg_distance := Some 0\<rparr>)) s
     = (case scrollPage env
               \<lparr>set_direction = Some (or_str (arg_direction a) ''down''),
                set_distance = Some 500,
                set_smooth = Some (not_false (arg_smooth a))\<rparr> s of
          (Inl e, s') \<Rightarrow> (Inl e, s')
        | (Inr v, s') \<Rightarrow> (Inr [TextOf v], s'))
   \<and> callTool env ''chrome_scroll'' (Some (a\<lparr>arg_distance := Some 0\<rparr>)) s
     = callTool env ''chrome_scroll'' (Some (a\<lparr>arg_distance := None\<rparr>)) s
   \<and> callTool env ''chrome_wait_for_element'' (Some (a\<lparr>arg_timeout := Some 0\<rparr>)) s
     = (case waitForElement env (arg_selector a) (Some 10000) s of
          (Inl e, s') \<Rightarrow> (Inl e, s')
        | (Inr v, s') \<Rightarrow> (Inr [TextOf v], s'))
   \<and> callTool env ''chrome_wait_for_element'' (Some (a\<lparr>arg_timeout := Some 0\<rparr>)) s
     = callTool env ''chrome_wait_for_element'' (Some (a\<lparr>arg_timeout := None\<rparr>)) s"
  by (simp add: callTool_def args_member_def respond_def or_num_def action_simps
      split: prod.splits sum.splits)

text \<open>
  C5. For every call-tool request: a tool name outside the fixed set throws a structured
  error of kind method-not-found, and changes nothing; a structured error thrown by the
  session manager's operation that the tool calls reaches the caller as it is, code and
  message, from the state the operation left; and the one error that is not structured, the
  TypeError of reading a member of absent arguments (its message names the member between
  single quotes), reaches the caller as a structured error of kind internal-error whose
  message ends with the TypeError's message.
\<close>

theorem callTool_errors:
  "(name \<notin> set TOOL_NAMES
      \<longrightarrow> callTool env name args s = (Inl (McpError MethodNotFound (MSG_UNKNOWN_TOOL @ name)), s))
   \<and> (navigateTo env (arg_url a)
         \<lparr>set_waitUntil = Some (or_str (arg_waitUntil a) ''networkidle2''),
          set_goto_timeout = None\<rparr> s = (Inl e, s')
      \<longrightarrow> callTool env ''chrome_navigate'' (Some a) s = (Inl e, s'))
   \<and> (search env (arg_query a) s = (Inl e, s')
      \<longrightarrow> callTool env ''chrome_search'' (Some a) s = (Inl e, s'))
   \<and> (takeScreenshot env
         \<lparr>set_image_type = None, set_fullPage = Some (not_false (arg_fullPage a)),
          set_quality = Some (or_num (arg_quality a) 90)\<rparr> s = (Inl e, s')
      \<longrightarrow> callTool env ''chrome_screenshot'' (Some a) s = (Inl e, s'))
   \<and> (getContent env (arg_selector a) s = (Inl e, s')
      \<longrightarrow> callTool env ''chrome_get_content'' (Some a) s = (Inl e, s'))
   \<and> (clickElement env (arg_selector a) \<lparr>clickCount = None\<rparr> s = (Inl e, s')
      \<longrightarrow> callTool env ''chrome_click'' (Some a) s = (Inl e, s'))
   \<and> (typeText env (arg_selector a) (arg_text a) \<lparr>clear = arg_clear a, delay = None\<rparr> s
         = (Inl e, s')
      \<longrightarrow> callTool env ''chrome_type'' (Some a) s = (Inl e, s'))
   \<and> (waitForElement env (arg_selector a) (Some (or_num (arg_timeout a) 10000)) s = (Inl e, s')
      \<longrightarrow> callTool env ''chrome_wait_for_element'' (Some a) s = (Inl e, s'))
   \<and> (scrollPage env
         \<lparr>set_direction = Some (or_str (arg_direction a) ''down''),
          set_distance = Some (or_num (arg_distance a) 500),
          set_smooth = Some (not_false (arg_smooth a))\<rparr> s = (Inl e, s')
      \<longrightarrow> callTool env ''chrome_scroll'' (Some a) s = (Inl e, s'))
   \<and> (close env s = (Inl e, s') \<longrightarrow> callTool env ''chrome_close'' args s = (Inl e, s'))
   \<and> ((name, member) \<in> set first_argument_read
      \<longrightarrow> args_member None member s
            = (Inl (Plain (''Cannot read properties of undefined (reading ''
                           @ [CHR 0x27] @ member @ [CHR 0x27] @ '')'')), s)
        \<and> callTool env name None s
            = (Inl (McpError InternalError
                      (MSG_TOOL_FAIL
                       @ ''Cannot read properties of undefined (reading ''
                       @ [CHR 0x27] @ member @ [CHR 0x27] @ '')'')), s))"
proof (intro conjI impI)
  assume "name \<notin> set TOOL_NAMES"
  then show "callTool env name args s = (Inl (McpError MethodNotFound (MSG_UNKNOWN_TOOL @ name)), s)"
    by (simp add: callTool_def TOOL_NAMES_def action_simps)
next
  assume "(name, member) \<in> set first_argument_read"
  then show "callTool env name None s
            = (Inl (McpError InternalError
                      (MSG_TOOL_FAIL
                       @ ''Cannot read properties of undefined (reading ''
                       @ [CHR 0x27] @ member @ [CHR 0x27] @ '')'')), s)"
    by (auto simp add: first_argument_read_def callTool_def args_member_def action_simps)
qed (simp_all add: callTool_def args_member_def respond_def action_simps)

theorem callTool_errors_witness:
  "callTool calm ''chrome_teleport'' None constructed
     = (Inl (McpError MethodNotFound (MSG_UNKNOWN_TOOL @ ''chrome_teleport'')), constructed)
   \<and> callTool calm ''chrome_get_content'' (Some no_args) constructed
     = (Inl (McpError InvalidRequest MSG_NOT_INITIALIZED), constructed)
   \<and> callTool calm ''chrome_navigate'' None constructed
     = (Inl (McpError InternalError
               (MSG_TOOL_FAIL @ ''Cannot read properties of undefined (reading 'url')'')),
        constructed)"
proof -
  have unknown: "''chrome_teleport'' \<notin> set TOOL_NAMES"
    by (simp add: TOOL_NAMES_def)
  have thrown: "getContent calm (arg_selector no_args) constructed
      = (Inl (McpError InvalidRequest MSG_NOT_INITIALIZED), constructed)"
    by (simp add: getContent_def andThen_def require_page_None constructed_def)
  have reads: "(''chrome_navigate'', ''url'') \<in> set first_argument_read"
    by (simp add: first_argument_read_def)
  show ?thesis
    using callTool_errors [where name = "''chrome_teleport''" and env = calm and args = None
        and s = constructed and a = no_args and e = "McpError InvalidRequest MSG_NOT_INITIALIZED"
        and s' = constructed and member = "''url''"]
      callTool_errors [where name = "''chrome_navigate''" and env = calm and args = None
        and s = constructed and a = no_args and e = "McpError InvalidRequest MSG_NOT_INITIALIZED"
        and s' = constructed and member = "''url''"]
      unknown thrown reads
    by simp
qed

section \<open>Searching\<close>

lemma search_all_succeed:
  assumes "isInitialized s" "page s = Some p"
    and "\<forall>i<9. fails (reply_at env (length (calls s) + i)) = None"
  shows "search env query s =
      (Inr (envelope [(''query'', js_val query),
                      (''url'', JStr (returned (reply_at env (length (calls s) + 7)))),
                      (''title'', JStr (returned (reply_at env (length (calls s) + 8))))]
              (MSG_SEARCH_OK_HEAD @ js_str query @ MSG_SEARCH_OK_TAIL)),
       s\<lparr>calls := calls s @ search_calls p query\<rparr>)"
proof -
  have f: "\<And>i. i < 9 \<Longrightarrow> fails (reply_at env (length (calls s) + i)) = None"
    using assms(3) by blast
  note fs = f[of 0] f[of 1] f[of 2] f[of 3] f[of 4] f[of 5] f[of 6] f[of 7] f[of 8]
  show ?thesis
    unfolding search_def
    using fs assms(1,2)
    by (simp add: andThen_def[of "ensure_initialized env"] ensure_initialized_skip tryCatch_def
        page_call_step ret_def search_calls_def eval_nat_numeral)
qed

lemma search_first_failure:
  assumes "isInitialized s" "page s = Some p" "k < 9"
    and "\<forall>j<k. fails (reply_at env (length (calls s) + j)) = None"
    and "fails (reply_at env (length (calls s) + k)) = Some m"
  shows "search env query s =
      (Inl (McpError InternalError (MSG_SEARCH_FAIL @ m)),
       s\<lparr>calls := calls s @ take (Suc k) (search_calls p query)\<rparr>)"
proof -
  have f: "\<And>j. j < k \<Longrightarrow> fails (reply_at env (length (calls s) + j)) = None"
    using assms(4) by blast
  note steps = andThen_def[of "ensure_initialized env"] ensure_initialized_skip tryCatch_def
    page_call_step ret_def throw_def search_calls_def eval_nat_numeral
  note here = assms(1,2,5)
  from assms(3) consider
      (goto) "k = 0" | (wait_input) "k = 1" | (click) "k = 2" | (empty_input) "k = 3"
    | (typing) "k = 4" | (enter) "k = 5" | (wait_results) "k = 6" | (url) "k = 7"
    | (title) "k = 8"
    by linarith
  then show ?thesis
  proof cases
    case goto
    with here show ?thesis
      unfolding search_def by (simp add: steps)
  next
    case wait_input
    with here f[of 0] show ?thesis
      unfolding search_def by (simp add: steps)
  next
    case click
    with here f[of 0] f[of 1] show ?thesis
      unfolding search_def by (simp add: steps)
  next
    case empty_input
    with here f[of 0] f[of 1] f[of 2] show ?thesis
      unfolding search_def by (simp add: steps)
  next
    case typing
    with here f[of 0] f[of 1] f[of 2] f[of 3] show ?thesis
      unfolding search_def by (simp add: steps)
  next
    case enter
    with here f[of 0] f[of 1] f[of 2] f[of 3] f[of 4] show ?thesis
      unfolding search_def by (simp add: steps)
  next
    case wait_results
    with here f[of 0] f[of 1] f[of 2] f[of 3] f[of 4] f[of 5] show ?thesis
      unfolding search_def by (simp add: steps)
  next
    case url
    with here f[of 0] f[of 1] f[of 2] f[of 3] f[of 4] f[of 5] f[of 6] show ?thesis
      unfolding search_def by (simp add: steps)
  next
    case title
    with here f[of 0] f[of 1] f[of 2] f[of 3] f[of 4] f[of 5] f[of 6] f[of 7] show ?thesis
      unfolding search_def by (simp add: steps)
  qed
qed

lemma initialize_error:
  "initialize env options s = (Inl e, s') \<Longrightarrow> \<exists>m. e = McpError InternalError m"
  unfolding initialize_def tryCatch_def throw_def
  by (auto split: prod.splits sum.splits)

lemma ensure_initialized_error:
  "ensure_initialized env s = (Inl e, s') \<Longrightarrow> \<exists>m. e = McpError InternalError m"
  unfolding ensure_initialized_def andThen_def reads_def ret_def
  by (auto split: prod.splits sum.splits if_splits dest: initialize_error)

lemma search_error:
  "search env query s = (Inl e, s') \<Longrightarrow> \<exists>m. e = McpError InternalError m"
  unfolding search_def andThen_def[of "ensure_initialized env"] tryCatch_def throw_def
  by (auto split: prod.splits sum.splits dest: ensure_initialized_error)


text \<open>
  C8. On an initialized session with a page, \<open>search\<close> makes these calls on the library, in
  this order: navigation to the Bing homepage, a wait for \<open>#sb_form_q\<close> with a timeout of
  10000, a click on it and the script that empties it, typing the query into it, the Enter
  key, a wait for \<open>#b_results\<close> with a timeout of 15000, and the reads of the URL and the
  title. When all nine succeed it returns the envelope, with the URL and title the library
  gave; when the i-th is the first to fail, no later call is made and it throws a
  structured error of kind internal-error whose message ends with the failure's message.
  So it returns only if every call succeeded; and from any state whatever, every error it
  throws is of kind internal-error. The script sets the value of \<open>#sb_form_q\<close> to the
  empty string when the page has such an element.
\<close>

theorem search_steps:
  "(isInitialized s \<and> page s = Some p \<and> (\<forall>i<9. fails (reply_at env (length (calls s) + i)) = None)
      \<longrightarrow> search env query s =
            (Inr (envelope [(''query'', js_val query),
                            (''url'', JStr (returned (reply_at env (length (calls s) + 7)))),
                            (''title'', JStr (returned (reply_at env (length (calls s) + 8))))]
                    (MSG_SEARCH_OK_HEAD @ js_str query @ MSG_SEARCH_OK_TAIL)),
             s\<lparr>calls := calls s @ search_calls p query\<rparr>))
   \<and> (isInitialized s \<and> page s = Some p \<and> k < 9
        \<and> (\<forall>j<k. fails (reply_at env (length (calls s) + j)) = None)
        \<and> fails (reply_at env (length (calls s) + k)) = Some m
      \<longrightarrow> search env query s =
            (Inl (McpError InternalError (MSG_SEARCH_FAIL @ m)),
             s\<lparr>calls := calls s @ take (Suc k) (search_calls p query)\<rparr>))
   \<and> (isInitialized s \<and> page s = Some p \<and> fst (search env query s) = Inr v
      \<longrightarrow> (\<forall>i<9. fails (reply_at env (length (calls s) + i)) = None))
   \<and> (fst (search env query s) = Inl e \<longrightarrow> (\<exists>msg. e = McpError InternalError msg))
   \<and> run_script ClearSearchBox doc
       = (if matches doc ''#sb_form_q'' = [] then [] else [SetValue ''#sb_form_q'' []])"
proof (intro conjI impI)
  assume "isInitialized s \<and> page s = Some p
    \<and> (\<forall>i<9. fails (reply_at env (length (calls s) + i)) = None)"
  then show "search env query s =
            (Inr (envelope [(''query'', js_val query),
                            (''url'', JStr (returned (reply_at env (length (calls s) + 7)))),
                            (''title'', JStr (returned (reply_at env (length (calls s) + 8))))]
                    (MSG_SEARCH_OK_HEAD @ js_str query @ MSG_SEARCH_OK_TAIL)),
             s\<lparr>calls := calls s @ search_calls p query\<rparr>)"
    by (simp add: search_all_succeed)
next
  assume "isInitialized s \<and> page s = Some p \<and> k < 9
        \<and> (\<forall>j<k. fails (reply_at env (length (calls s) + j)) = None)
        \<and> fails (reply_at env (length (calls s) + k)) = Some m"
  then show "search env query s =
            (Inl (McpError InternalError (MSG_SEARCH_FAIL @ m)),
             s\<lparr>calls := calls s @ take (Suc k) (search_calls p query)\<rparr>)"
    by (simp add: search_first_failure)
next
  assume a: "isInitialized s \<and> page s = Some p \<and> fst (search env query s) = Inr v"
  show "\<forall>i<9. fails (reply_at env (length (calls s) + i)) = None"
  proof (rule ccontr)
    let ?bad = "\<lambda>i. i < 9 \<and> fails (reply_at env (length (calls s) + i)) \<noteq> None"
    assume "\<not> (\<forall>i<9. fails (reply_at env (length (calls s) + i)) = None)"
    then have "\<exists>i. ?bad i"
      by blast
    then have first: "?bad (LEAST i. ?bad i)"
      by (rule LeastI_ex)
    have before: "\<And>j. j < (LEAST i. ?bad i) \<Longrightarrow> \<not> ?bad j"
      by (rule not_less_Least)
    from first obtain msg where
      "fails (reply_at env (length (calls s) + (LEAST i. ?bad i))) = Some msg"
      by blast
    moreover have "\<forall>j<(LEAST i. ?bad i). fails (reply_at env (length (calls s) + j)) = None"
      using before first by (meson less_trans)
    ultimately have "fst (search env query s) = Inl (McpError InternalError (MSG_SEARCH_FAIL @ msg))"
      using a first by (simp add: search_first_failure)
    with a show False
      by simp
  qed
next
  assume "fst (search env query s) = Inl e"
  then show "\<exists>msg. e = McpError InternalError msg"
    using search_error [of env query s e "snd (search env query s)"]
    by (metis prod.collapse)
next
  show "run_script ClearSearchBox doc
       = (if matches doc ''#sb_form_q'' = [] then [] else [SetValue ''#sb_form_q'' []])"
    by (simp split: list.splits)
qed

theorem search_steps_witness:
  "search calm (Some ''test'') open_session =
     (Inr (envelope [(''query'', JStr ''test''), (''url'', JStr []), (''title'', JStr [])]
             (MSG_SEARCH_OK_HEAD @ ''test'' @ MSG_SEARCH_OK_TAIL)),
      open_session\<lparr>calls := calls open_session @ search_calls 1 (Some ''test'')\<rparr>)
   \<and> search offline (Some ''test'') open_session =
     (Inl (McpError InternalError (MSG_SEARCH_FAIL @ ''net::ERR_INTERNET_DISCONNECTED'')),
      open_session\<lparr>calls := calls open_session
         @ [Goto 1 (Some ''https://www.bing.com'')
              \<lparr>waitUntil = ''networkidle2'', goto_timeout = 30000\<rparr>]\<rparr>)"
proof -
  have i: "isInitialized open_session" and p: "page open_session = Some 1"
    and n: "length (calls open_session) = 3"
    by (simp_all add: open_session_def)
  have ok: "\<forall>i<9. fails (reply_at calm (length (calls open_session) + i)) = None"
    by (simp add: calm_def blank_reply_def)
  have down: "fails (reply_at offline (length (calls open_session) + 0))
      = Some ''net::ERR_INTERNET_DISCONNECTED''"
    by (simp add: n offline_def blank_reply_def)
  show ?thesis
    using search_steps [where s = open_session and p = 1 and env = calm
        and query = "Some ''test''" and k = 0]
      search_steps [where s = open_session and p = 1 and env = offline
        and query = "Some ''test''" and k = 0 and m = "''net::ERR_INTERNET_DISCONNECTED''"]
      i p ok down
    by (simp add: n calm_def blank_reply_def js_val_def js_str_def search_calls_def)
qed

section \<open>Lazy initialization\<close>

lemma initialize_returns_initialized:
  "initialize env options s = (Inr v, s') \<Longrightarrow> isInitialized s' \<and> page s' \<noteq> None"
  unfolding initialize_def puppeteer_launch_def browser_close_def browser_newPage_def
    page_call_def this_page_def drive_def Let_def action_simps
  by (auto split: option.splits)

lemma ensure_initialized_fresh:
  "\<not> isInitialized s \<Longrightarrow>
   andThen (ensure_initialized env) f s =
     (case initialize env no_launch_overrides s of
        (Inl e, s') \<Rightarrow> (Inl e, s')
      | (Inr v, s') \<Rightarrow> f () s')"
  by (simp add: ensure_initialized_def action_simps split: prod.splits sum.splits)

lemma ensure_initialized_done:
  "isInitialized s \<Longrightarrow> andThen (ensure_initialized env) f s = f () s"
  by (simp add: andThen_def ensure_initialized_skip)

lemma initialize_from_closed:
  assumes "browser s = None"
    and "fails (reply_at env (length (calls s))) = None"
    and "fails (reply_at env (length (calls s) + 1)) = None"
    and "fails (reply_at env (length (calls s) + 2)) = None"
  shows "initialize env options s =
     (Inr (envelope [] MSG_INIT_OK),
      s\<lparr>browser := Some (length (calls s)),
        page := Some (length (calls s) + 1),
        isInitialized := True,
        calls := calls s @ [Launch (merge_launch (defaultLaunch env) options),
                            NewPage (length (calls s)),
                            SetUserAgent (length (calls s) + 1) USER_AGENT],
        live := insert (length (calls s)) (live s)\<rparr>)"
  using assms
  unfolding initialize_def puppeteer_launch_def browser_newPage_def
    page_call_def this_page_def drive_def Let_def action_simps
  by (simp add: eval_nat_numeral)



section \<open>After closing\<close>

lemma close_succeeds:
  "browser s = Some b \<Longrightarrow> fails (reply_at env (length (calls s))) = None \<Longrightarrow>
   close env s =
     (Inr (envelope [] MSG_CLOSE_OK),
      s\<lparr>browser := None, page := None, isInitialized := False,
        calls := calls s @ [BrowserClose b], live := live s - {b}\<rparr>)"
  by (simp add: close_def browser_close_def drive_def Let_def action_simps)

text \<open>
  C1, as the code has it. After a \<open>close()\<close> that succeeded, the controller holds no
  browser and no page and is not initialized. From there \<open>navigateTo\<close> and \<open>search\<close> run
  \<open>initialize()\<close> first, which (when the library's three calls succeed) launches a new
  browser and opens a new page in it, and then go on; but \<open>takeScreenshot\<close>,
  \<open>getContent\<close>, \<open>clickElement\<close>, \<open>typeText\<close>, \<open>waitForElement\<close> and \<open>scrollPage\<close> throw a
  structured error of kind invalid-request and leave the session closed.
\<close>

theorem after_close:
  "browser s = Some b \<Longrightarrow> fails (reply_at env (length (calls s))) = None \<Longrightarrow>
   (let closed = s\<lparr>browser := None, page := None, isInitialized := False,
                   calls := calls s @ [BrowserClose b], live := live s - {b}\<rparr>;
        n = length (calls s) + 1
    in close env s = (Inr (envelope [] MSG_CLOSE_OK), closed)
     \<and> navigateTo env url options closed =
         (case initialize env no_launch_overrides closed of
            (Inl e, s') \<Rightarrow> (Inl e, s')
          | (Inr v, s') \<Rightarrow> navigateTo env url options s')
     \<and> search env query closed =
         (case initialize env no_launch_overrides closed of
            (Inl e, s') \<Rightarrow> (Inl e, s')
          | (Inr v, s') \<Rightarrow> search env query s')
     \<and> (fails (reply_at env n) = None \<and> fails (reply_at env (n + 1)) = None
          \<and> fails (reply_at env (n + 2)) = None
        \<longrightarrow> initialize env no_launch_overrides closed =
             (Inr (envelope [] MSG_INIT_OK),
              closed\<lparr>browser := Some n, page := Some (n + 1), isInitialized := True,
                calls := calls closed @ [Launch (defaultLaunch env), NewPage n,
                                         SetUserAgent (n + 1) USER_AGENT],
                live := insert n (live closed)\<rparr>))
     \<and> takeScreenshot env shot closed
         = (Inl (McpError InvalidRequest MSG_NOT_INITIALIZED), closed)
     \<and> getContent env selector closed
         = (Inl (McpError InvalidRequest MSG_NOT_INITIALIZED), closed)
     \<and> clickElement env selector click closed
         = (Inl (McpError InvalidRequest MSG_NOT_INITIALIZED), closed)
     \<and> typeText env selector txt typing closed
         = (Inl (McpError InvalidRequest MSG_NOT_INITIALIZED), closed)
     \<and> waitForElement env selector timeout closed
         = (Inl (McpError InvalidRequest MSG_NOT_INITIALIZED), closed)
     \<and> scrollPage env scroll closed
         = (Inl (McpError InvalidRequest MSG_NOT_INITIALIZED), closed))"
proof -
  assume b: "browser s = Some b" and ok: "fails (reply_at env (length (calls s))) = None"
  define closed where "closed = s\<lparr>browser := None, page := None, isInitialized := False,
                   calls := calls s @ [BrowserClose b], live := live s - {b}\<rparr>"
  have fresh: "\<not> isInitialized closed" and nopage: "page closed = None"
    and nobrowser: "browser closed = None" and len: "length (calls closed) = length (calls s) + 1"
    by (simp_all add: closed_def)
  have again: "\<And>v s'. initialize env no_launch_overrides closed = (Inr v, s') \<Longrightarrow> isInitialized s'"
    by (simp add: initialize_returns_initialized)
  have c: "close env s = (Inr (envelope [] MSG_CLOSE_OK), closed)"
    using b ok by (simp add: close_succeeds closed_def)
  have nav: "navigateTo env url options closed =
         (case initialize env no_launch_overrides closed of
            (Inl e, s') \<Rightarrow> (Inl e, s')
          | (Inr v, s') \<Rightarrow> navigateTo env url options s')"
    using fresh again
    by (simp add: navigateTo_def ensure_initialized_fresh ensure_initialized_done
        split: prod.splits sum.splits)
  have srch: "search env query closed =
         (case initialize env no_launch_overrides closed of
            (Inl e, s') \<Rightarrow> (Inl e, s')
          | (Inr v, s') \<Rightarrow> search env query s')"
    using fresh again
    by (simp add: search_def ensure_initialized_fresh ensure_initialized_done
        split: prod.splits sum.splits)
  have init: "fails (reply_at env (length (calls s) + 1)) = None
        \<and> fails (reply_at env (length (calls s) + 1 + 1)) = None
        \<and> fails (reply_at env (length (calls s) + 1 + 2)) = None
      \<longrightarrow> initialize env no_launch_overrides closed =
             (Inr (envelope [] MSG_INIT_OK),
              closed\<lparr>browser := Some (length (calls s) + 1),
                page := Some (length (calls s) + 1 + 1), isInitialized := True,
                calls := calls closed @ [Launch (defaultLaunch env), NewPage (length (calls s) + 1),
                                         SetUserAgent (length (calls s) + 1 + 1) USER_AGENT],
                live := insert (length (calls s) + 1) (live closed)\<rparr>)"
    using initialize_from_closed [of closed env no_launch_overrides] nobrowser len
    by (simp add: merge_launch_def over_def no_launch_overrides_def)
  have rest: "takeScreenshot env shot closed
         = (Inl (McpError InvalidRequest MSG_NOT_INITIALIZED), closed)"
     "getContent env selector closed
         = (Inl (McpError InvalidRequest MSG_NOT_INITIALIZED), closed)"
     "clickElement env selector click closed
         = (Inl (McpError InvalidRequest MSG_NOT_INITIALIZED), closed)"
     "typeText env selector txt typing closed
         = (Inl (McpError InvalidRequest MSG_NOT_INITIALIZED), closed)"
     "waitForElement env selector timeout closed
         = (Inl (McpError InvalidRequest MSG_NOT_INITIALIZED), closed)"
     "scrollPage env scroll closed
         = (Inl (McpError InvalidRequest MSG_NOT_INITIALIZED), closed)"
    using nopage
    by (simp_all add: takeScreenshot_def getContent_def clickElement_def typeText_def
        waitForElement_def scrollPage_def andThen_def require_page_None)
  show ?thesis
    unfolding Let_def closed_def [symmetric]
    using c nav srch init rest by blast
qed

theorem after_close_witness:
  "close calm open_session =
     (Inr (envelope [] MSG_CLOSE_OK),
      \<lparr>browser = None, page = None, isInitialized = False,
       calls = calls open_session @ [BrowserClose 0], live = {}\<rparr>)
   \<and> initialize calm no_launch_overrides
       \<lparr>browser = None, page = None, isInitialized = False,
        calls = calls open_session @ [BrowserClose 0], live = {}\<rparr> =
     (Inr (envelope [] MSG_INIT_OK),
      \<lparr>browser = Some 4, page = Some 5, isInitialized = True,
       calls = calls open_session @ [BrowserClose 0, Launch (defaultLaunch calm), NewPage 4,
                                     SetUserAgent 5 USER_AGENT],
       live = {4}\<rparr>)
   \<and> scrollPage calm no_scroll_options
       \<lparr>browser = None, page = None, isInitialized = False,
        calls = calls open_session @ [BrowserClose 0], live = {}\<rparr> =
     (Inl (McpError InvalidRequest MSG_NOT_INITIALIZED),
      \<lparr>browser = None, page = None, isInitialized = False,
       calls = calls open_session @ [BrowserClose 0], live = {}\<rparr>)"
proof -
  have b: "browser open_session = Some 0"
    by (simp add: open_session_def)
  have ok: "fails (reply_at calm (length (calls open_session))) = None"
    by (simp add: calm_def blank_reply_def)
  show ?thesis
    using after_close [OF b ok, where scroll = no_scroll_options]
    by (simp add: Let_def open_session_def calm_def blank_reply_def)
qed

text \<open>
  C1, as stated, fails: in an environment where every call succeeds, \<open>close()\<close> on an open
  session returns its envelope, and \<open>takeScreenshot\<close> right after it throws invalid-request
  without making any call on the library, so without initializing anything.
\<close>

theorem after_close_counterexample:
  "fst (close calm open_session) = Inr (envelope [] MSG_CLOSE_OK)
   \<and> takeScreenshot calm no_screenshot_overrides (snd (close calm open_session))
       = (Inl (McpError InvalidRequest MSG_NOT_INITIALIZED), snd (close calm open_session))
   \<and> browser (snd (close calm open_session)) = None
   \<and> \<not> isInitialized (snd (close calm open_session))"
proof -
  have "close calm open_session =
     (Inr (envelope [] MSG_CLOSE_OK),
      open_session\<lparr>browser := None, page := None, isInitialized := False,
        calls := calls open_session @ [BrowserClose 0], live := live open_session - {0}\<rparr>)"
    by (rule close_succeeds) (simp_all add: open_session_def calm_def blank_reply_def)
  then show ?thesis
    by (simp add: takeScreenshot_def andThen_def require_page_None)
qed

section \<open>Invariants of the session\<close>

lemma keeps_ret: "keeps P (ret x)"
  by (simp add: keeps_def ret_def)

lemma keeps_throw: "keeps P (throw e)"
  by (simp add: keeps_def throw_def)

lemma keeps_reads: "keeps P (reads f)"
  by (simp add: keeps_def reads_def)

lemma keeps_andThen: "keeps P m \<Longrightarrow> (\<And>x. keeps P (f x)) \<Longrightarrow> keeps P (andThen m f)"
  unfolding keeps_def andThen_def
  by (auto split: prod.splits sum.splits)

lemma keeps_tryCatch: "keeps P m \<Longrightarrow> (\<And>e. keeps P (h e)) \<Longrightarrow> keeps P (tryCatch m h)"
  unfolding keeps_def tryCatch_def
  by (auto split: prod.splits sum.splits)

lemma keeps_drive: "(\<And>s cs. P (s\<lparr>calls := cs\<rparr>) = P s) \<Longrightarrow> keeps P (drive env c)"
  by (simp add: keeps_def drive_def Let_def split: option.splits)

lemma keeps_page_call:
  "(\<And>s cs. P (s\<lparr>calls := cs\<rparr>) = P s) \<Longrightarrow> keeps P (page_call env member c)"
  unfolding page_call_def this_page_def
  by (auto intro!: keeps_andThen keeps_reads keeps_throw keeps_drive split: option.splits)

lemma keeps_page_eval_selector:
  "(\<And>s cs. P (s\<lparr>calls := cs\<rparr>) = P s) \<Longrightarrow> keeps P (page_eval_selector env selector)"
  unfolding page_eval_selector_def
  by (auto intro!: keeps_andThen keeps_page_call keeps_throw keeps_ret split: list.splits)

lemma keeps_require_page: "keeps P require_page"
  unfolding require_page_def
  by (auto intro!: keeps_andThen keeps_reads keeps_throw keeps_ret)

lemmas keeps_intros =
  keeps_andThen keeps_tryCatch keeps_reads keeps_ret keeps_throw keeps_page_call
  keeps_page_eval_selector keeps_require_page

lemma initialize_page_needs_browser: "keeps page_needs_browser (initialize env options)"
  unfolding keeps_def page_needs_browser_def initialize_def puppeteer_launch_def
    browser_close_def browser_newPage_def page_call_def this_page_def drive_def Let_def
    action_simps
  by (auto split: option.splits)

lemma initialize_live_is_held: "keeps live_is_held (initialize env options)"
  unfolding keeps_def live_is_held_def initialize_def puppeteer_launch_def
    browser_close_def browser_newPage_def page_call_def this_page_def drive_def Let_def
    action_simps
  by (auto split: option.splits)

lemma close_page_needs_browser: "keeps page_needs_browser (close env)"
  unfolding keeps_def page_needs_browser_def close_def browser_close_def drive_def Let_def
    action_simps
  by (auto split: option.splits)

lemma close_live_is_held: "keeps live_is_held (close env)"
  unfolding keeps_def live_is_held_def close_def browser_close_def drive_def Let_def
    action_simps
  by (auto split: option.splits)

lemma keeps_perform:
  assumes blind: "\<And>s cs. P (s\<lparr>calls := cs\<rparr>) = P s"
    and init: "\<And>options. keeps P (initialize env options)"
    and clos: "keeps P (close env)"
  shows "keeps P (perform env op)"
proof (cases op)
  case (Initialize options)
  then show ?thesis
    using init by simp
next
  case (NavigateTo url options)
  then show ?thesis
    by (auto simp: navigateTo_def ensure_initialized_def init blind intro!: keeps_intros)
next
  case (Search query)
  then show ?thesis
    by (auto simp: search_def ensure_initialized_def init blind intro!: keeps_intros)
next
  case (TakeScreenshot options)
  then show ?thesis
    by (auto simp: takeScreenshot_def blind intro!: keeps_intros)
next
  case (GetContent selector)
  then show ?thesis
    by (auto simp: getContent_def blind split: option.splits intro!: keeps_intros)
next
  case (ClickElement selector options)
  then show ?thesis
    by (auto simp: clickElement_def blind intro!: keeps_intros)
next
  case (TypeText selector typed options)
  then show ?thesis
    by (auto simp: typeText_def blind intro!: keeps_intros)
next
  case (WaitForElement selector timeout)
  then show ?thesis
    by (auto simp: waitForElement_def blind intro!: keeps_intros)
next
  case (ScrollPage options)
  then show ?thesis
    by (auto simp: scrollPage_def blind Let_def intro!: keeps_intros)
next
  case Close
  then show ?thesis
    using clos by simp
qed

lemma initialize_close_fails:
  "browser s = Some b \<Longrightarrow> fails (reply_at env (length (calls s))) = Some m \<Longrightarrow>
   initialize env options s =
     (Inl (McpError InternalError (MSG_INIT_FAIL @ m)), s\<lparr>calls := calls s @ [BrowserClose b]\<rparr>)"
  unfolding initialize_def browser_close_def drive_def Let_def action_simps
  by simp

lemma initialize_closes_then_launches:
  "browser s = Some b \<Longrightarrow> fails (reply_at env (length (calls s))) = None \<Longrightarrow>
   take 2 (drop (length (calls s)) (calls (snd (initialize env options s))))
     = [BrowserClose b, Launch (merge_launch (defaultLaunch env) options)]"
  unfolding initialize_def puppeteer_launch_def browser_close_def browser_newPage_def
    page_call_def this_page_def drive_def Let_def action_simps
  by (auto split: option.splits)

text \<open>
  C6. Every operation of the session manager, whether it returns or throws, keeps the
  invariant that a page handle is present only if a browser handle is, and keeps the
  invariant that every running browser is the one the controller holds, so that at most
  one browser runs. \<open>initialize\<close> on a controller that holds a browser handle first
  closes that browser: if the close throws, nothing is launched; if it succeeds, the
  launch of the new browser is the very next call. Before any operation the controller
  holds nothing and no browser runs.
\<close>

theorem session_invariants:
  "keeps page_needs_browser (perform env op)
   \<and> keeps live_is_held (perform env op)
   \<and> page_needs_browser constructed
   \<and> live_is_held constructed
   \<and> (live_is_held s \<longrightarrow> card (live s) \<le> 1)
   \<and> (browser s = Some b \<and> fails (reply_at env (length (calls s))) = Some m
      \<longrightarrow> initialize env options s =
            (Inl (McpError InternalError (MSG_INIT_FAIL @ m)),
             s\<lparr>calls := calls s @ [BrowserClose b]\<rparr>))
   \<and> (browser s = Some b \<and> fails (reply_at env (length (calls s))) = None
      \<longrightarrow> take 2 (drop (length (calls s)) (calls (snd (initialize env options s))))
            = [BrowserClose b, Launch (merge_launch (defaultLaunch env) options)])"
proof (intro conjI impI)
  show "keeps page_needs_browser (perform env op)"
    by (rule keeps_perform)
      (simp_all add: page_needs_browser_def initialize_page_needs_browser
        close_page_needs_browser)
  show "keeps live_is_held (perform env op)"
    by (rule keeps_perform)
      (simp_all add: live_is_held_def initialize_live_is_held close_live_is_held)
  show "page_needs_browser constructed" and "live_is_held constructed"
    by (simp_all add: page_needs_browser_def live_is_held_def constructed_def)
next
  assume "live_is_held s"
  then have "live s \<subseteq> set_option (browser s)"
    by (simp add: live_is_held_def)
  moreover have "finite (set_option (browser s))" and "card (set_option (browser s)) \<le> 1"
    by (cases "browser s"; simp)+
  ultimately show "card (live s) \<le> 1"
    by (meson card_mono le_trans)
next
  assume "browser s = Some b \<and> fails (reply_at env (length (calls s))) = Some m"
  then show "initialize env options s =
            (Inl (McpError InternalError (MSG_INIT_FAIL @ m)),
             s\<lparr>calls := calls s @ [BrowserClose b]\<rparr>)"
    by (simp add: initialize_close_fails)
next
  assume "browser s = Some b \<and> fails (reply_at env (length (calls s))) = None"
  then show "take 2 (drop (length (calls s)) (calls (snd (initialize env options s))))
            = [BrowserClose b, Launch (merge_launch (defaultLaunch env) options)]"
    by (simp add: initialize_closes_then_launches)
qed

theorem session_invariants_witness:
  "page_needs_browser open_session
   \<and> page_needs_browser (snd (perform calm (Initialize no_launch_overrides) open_session))
   \<and> live_is_held open_session
   \<and> live_is_held (snd (perform calm (Initialize no_launch_overrides) open_session))
   \<and> card (live (snd (perform calm (Initialize no_launch_overrides) open_session))) \<le> 1
   \<and> take 2 (drop (length (calls open_session))
        (calls (snd (initialize calm no_launch_overrides open_session))))
       = [BrowserClose 0, Launch (defaultLaunch calm)]"
proof -
  have pnb: "page_needs_browser open_session" and held: "live_is_held open_session"
    and b: "browser open_session = Some 0"
    by (simp_all add: page_needs_browser_def live_is_held_def open_session_def)
  have ok: "fails (reply_at calm (length (calls open_session))) = None"
    by (simp add: calm_def blank_reply_def)
  show ?thesis
    using session_invariants [where env = calm and op = "Initialize no_launch_overrides"
        and s = open_session and b = 0 and options = no_launch_overrides]
      session_invariants [where env = calm and op = "Initialize no_launch_overrides"
        and s = "snd (perform calm (Initialize no_launch_overrides) open_session)"]
      pnb held b ok
    by (simp add: keeps_def merge_launch_def over_def no_launch_overrides_def)
qed

end
